theory Spec2Isabelle
  imports Complex_Main "HOL-Library.Word" "HOL-Library.Signed_Division" "HOL-Library.Log_Nat"
begin

section \<open>Element geometries and quadrature point counts\<close>

text \<open>
  The functions of \<^verbatim>\<open>serac/numerics/functional/geometry.hpp\<close>. The enumeration
  \<^verbatim>\<open>mfem::Geometry::Type\<close> belongs to the mesh library; its enumerators are listed in
  the library's order. A C++ \<^verbatim>\<open>int\<close> is a 32-bit two's complement value, read by
  \<open>sint\<close>; \<^verbatim>\<open>/\<close> truncates towards zero. Where a sum or product stays inside the 32-bit
  range the word operation is the C++ result; outside it the language leaves the result
  undefined, and the model wraps around as the compiled code does.
\<close>

datatype geometry =
  INVALID | POINT | SEGMENT | TRIANGLE | SQUARE | TETRAHEDRON | CUBE | PRISM | PYRAMID

type_synonym c_int = "32 word"

definition int_div :: "c_int \<Rightarrow> c_int \<Rightarrow> c_int" where
  "int_div a b = word_of_int (sint a sdiv sint b)"

definition num_quadrature_points :: "geometry \<Rightarrow> c_int \<Rightarrow> c_int" where
  "num_quadrature_points g q =
     (if g = SEGMENT then q
      else if g = TRIANGLE then int_div (q * (q + 1)) 2
      else if g = SQUARE then q * q
      else if g = TETRAHEDRON then int_div (q * (q + 1) * (q + 2)) 6
      else if g = CUBE then q * q * q
      else - 1)"

definition dimension_of :: "geometry \<Rightarrow> c_int" where
  "dimension_of g =
     (if g = SEGMENT then 1
      else if g = TRIANGLE \<or> g = SQUARE then 2
      else if g = TETRAHEDRON \<or> g = CUBE then 3
      else - 1)"

section \<open>Errors, fields and the memory that holds them\<close>

text \<open>
  Modelled from the spec: the macros \<^verbatim>\<open>SLIC_ERROR_ROOT\<close> and \<^verbatim>\<open>SLIC_ERROR_ROOT_IF\<close> are
  not part of the sources. The spec's error-handling design makes configuration and
  lifecycle errors unrecoverable (they terminate the run), so a call that reaches one of
  them returns \<open>Inl\<close> of the error and nothing after it is executed. The constructors are
  the spec's taxonomy; \<open>UnknownStateName\<close> is the fatal error of \<^verbatim>\<open>state\<close> for a name the
  module does not have.
\<close>

datatype error =
  ConfigurationError | ConvergenceFailure | InvalidState | InconsistentTimestep
  | UnsupportedOperation | MissingCapability | UnknownStateName

text \<open>
  \<^verbatim>\<open>size_t\<close> is an unsigned 64-bit integer: \<open>i + 1\<close> wraps around at the largest value.
\<close>

type_synonym size_t = "64 word"

text \<open>
  A \<^verbatim>\<open>FiniteElementState\<close> object is identified by where it lives: the temperature owned
  by the thermal sub-module (\<^verbatim>\<open>thermal_.temperature()\<close>), the displacement and velocity
  owned by the solid sub-module (\<^verbatim>\<open>solid_.displacement()\<close>, \<^verbatim>\<open>solid_.velocity()\<close>), or an
  object owned by the caller. The modules hold references to these objects, so the values
  are kept in one store and read through the reference at the moment of use. The type
  \<open>'v\<close> of a field's coefficient vector stays abstract.
\<close>

datatype field_ref = ThermalTemperature | SolidDisplacement | SolidVelocity | External nat

type_synonym 'v store = "field_ref \<Rightarrow> 'v"

section \<open>Double precision numbers\<close>

text \<open>
  A time step size is a C++ \<^verbatim>\<open>double\<close>, an IEEE 754 binary64 value: not a number, an
  infinity, or a finite real number on the binary64 grid (the two zeros are not told
  apart). \<open>round_to_double\<close> is rounding to nearest with ties to the even significand: the
  binade of \<open>|x|\<close> gives the spacing of the grid there (\<open>2\<^sup>e\<^sup>-\<^sup>5\<^sup>2\<close> for \<open>2\<^sup>e \<le> |x| < 2\<^sup>e\<^sup>+\<^sup>1\<close>, and
  \<open>2\<^sup>-\<^sup>1\<^sup>0\<^sup>7\<^sup>4\<close> below \<open>2\<^sup>-\<^sup>1\<^sup>0\<^sup>2\<^sup>2\<close>), \<open>|x|\<close> is rounded to a multiple of it, and a result of
  \<open>2\<^sup>1\<^sup>0\<^sup>2\<^sup>4\<close> or more overflows to an infinity. A finite value is a double when rounding
  leaves it as it is.
\<close>

datatype double = NaN | PlusInfinity | MinusInfinity | Finite real

definition binade :: "real \<Rightarrow> int" where
  "binade a = (if 1 \<le> a then bitlen \<lfloor>a\<rfloor> - 1 else - bitlen (\<lceil>1 / a\<rceil> - 1))"

definition round_half_even :: "real \<Rightarrow> int" where
  "round_half_even r =
     (if r - of_int \<lfloor>r\<rfloor> < 1 / 2 then \<lfloor>r\<rfloor>
      else if 1 / 2 < r - of_int \<lfloor>r\<rfloor> then \<lfloor>r\<rfloor> + 1
      else if even \<lfloor>r\<rfloor> then \<lfloor>r\<rfloor> else \<lfloor>r\<rfloor> + 1)"

definition quantum :: "real \<Rightarrow> real" where
  "quantum a = 2 powi (max (binade a) (- 1022) - 52)"

definition rounded_magnitude :: "real \<Rightarrow> real" where
  "rounded_magnitude a = of_int (round_half_even (a / quantum a)) * quantum a"

definition round_to_double :: "real \<Rightarrow> double" where
  "round_to_double x =
     (if x = 0 then Finite 0
      else if 2 powi 1024 \<le> rounded_magnitude \<bar>x\<bar>
        then (if 0 < x then PlusInfinity else MinusInfinity)
      else Finite (sgn x * rounded_magnitude \<bar>x\<bar>))"

definition is_double :: "double \<Rightarrow> bool" where
  "is_double d = (case d of Finite x \<Rightarrow> round_to_double x = Finite x | _ \<Rightarrow> True)"

text \<open>
  Subtraction, absolute value and the comparison \<^verbatim>\<open>>\<close> of doubles. The difference of two
  finite doubles is their exact difference, rounded; infinities of the same sign have no
  difference; a comparison with not-a-number is false.
\<close>

fun double_sub :: "double \<Rightarrow> double \<Rightarrow> double" where
  "double_sub NaN y = NaN"
| "double_sub x NaN = NaN"
| "double_sub PlusInfinity PlusInfinity = NaN"
| "double_sub PlusInfinity y = PlusInfinity"
| "double_sub MinusInfinity MinusInfinity = NaN"
| "double_sub MinusInfinity y = MinusInfinity"
| "double_sub (Finite a) PlusInfinity = MinusInfinity"
| "double_sub (Finite a) MinusInfinity = PlusInfinity"
| "double_sub (Finite a) (Finite b) = round_to_double (a - b)"

fun double_abs :: "double \<Rightarrow> double" where
  "double_abs NaN = NaN"
| "double_abs PlusInfinity = PlusInfinity"
| "double_abs MinusInfinity = PlusInfinity"
| "double_abs (Finite a) = Finite \<bar>a\<bar>"

fun double_greater :: "double \<Rightarrow> double \<Rightarrow> bool" where
  "double_greater NaN y = False"
| "double_greater x NaN = False"
| "double_greater PlusInfinity PlusInfinity = False"
| "double_greater PlusInfinity y = True"
| "double_greater MinusInfinity y = False"
| "double_greater (Finite a) PlusInfinity = False"
| "double_greater (Finite a) MinusInfinity = True"
| "double_greater (Finite a) (Finite b) = (b < a)"

text \<open>The literal \<^verbatim>\<open>1.0e-6\<close>: the double nearest to \<open>10\<^sup>-\<^sup>6\<close>.\<close>

definition tolerance :: double where
  "tolerance = round_to_double (1 / 1000000)"

section \<open>The physics module\<close>

text \<open>
  Modelled from the spec: the classes \<^verbatim>\<open>BasePhysics\<close>, \<^verbatim>\<open>HeatTransfer\<close> and
  \<^verbatim>\<open>SolidMechanics\<close> are not part of the sources (only their callers and tests are). The
  module below follows the spec's state machine
  \<open>Uninitialized \<rightarrow> Configured \<rightarrow> SteppingForward \<rightarrow> AdjointReady \<rightarrow> SteppingBackward \<rightarrow> Complete\<close>,
  its checkpoint (primal field values at the end of step \<open>n\<close>, cycle index \<open>n\<close>, time step
  size used, previous-step values) and its accumulated dual fields.
\<close>

datatype phase =
  Uninitialized | Configured | SteppingForward | AdjointReady | SteppingBackward | Complete

record 'v checkpoint =
  ck_cycle :: int
  ck_dt :: double
  ck_fields :: "'v list"
  ck_previous :: "'v list"

record 'v sensitivities =
  adjoint_multiplier :: 'v
  initial_sensitivity :: 'v
  shape_sensitivity :: 'v
  parameter_sensitivity :: "size_t \<Rightarrow> 'v"

text \<open>
  The cycle counter of the module is the spec's cycle index, an integer. \<open>essentials\<close> says that every required boundary condition and the
  material response have been registered. \<open>checkpoints\<close> holds the unconsumed checkpoints,
  most recent first.
\<close>

record 'v physics =
  phase :: phase
  cycle :: int
  essentials :: bool
  primal :: "field_ref list"
  parameters :: "size_t \<rightharpoonup> field_ref"
  checkpoints :: "'v checkpoint list"
  duals :: "'v sensitivities"

text \<open>
  The numerical work is a parameter of the model. A \<open>step\<close> is the time integrator with its
  nonlinear solve: from the current values of the module's parameters, the store and the
  attempted step size it gives the store with the module's primal fields updated and the
  step size actually used, or an error. An \<open>adjoint_step\<close> is the transposed linearised
  solve of one checkpoint with the caller's adjoint loads, updating the dual fields.
\<close>

type_synonym 'v step =
  "(size_t \<rightharpoonup> 'v) \<Rightarrow> 'v store \<Rightarrow> double \<Rightarrow> error + ('v store \<times> double)"

type_synonym 'v adjoint_step =
  "'v checkpoint \<Rightarrow> (string \<rightharpoonup> 'v) \<Rightarrow> 'v sensitivities \<Rightarrow> 'v sensitivities"

text \<open>Modelled from the spec: a module as its constructor leaves it.\<close>

definition new_physics :: "field_ref list \<Rightarrow> 'v sensitivities \<Rightarrow> 'v physics" where
  "new_physics refs z =
     \<lparr>phase = Uninitialized, cycle = 0, essentials = False, primal = refs,
      parameters = Map.empty, checkpoints = [], duals = z\<rparr>"

text \<open>
  Modelled from the spec: the sub-modules' \<^verbatim>\<open>setParameter\<close> is not part of the sources. It
  registers the given field object as the source of values for parameter \<open>i\<close>, as the
  documentation of the coupled module's own \<^verbatim>\<open>setParameter\<close> says. The two call sites in
  the coupled module write the index and the field in different orders; each argument is
  taken in its evident role.
\<close>

definition physics_setParameter :: "size_t \<Rightarrow> field_ref \<Rightarrow> 'v physics \<Rightarrow> 'v physics" where
  "physics_setParameter i r p = p\<lparr>parameters := (parameters p)(i \<mapsto> r)\<rparr>"

text \<open>The values a solve sees for the module's parameters: read through the references.\<close>

definition parameter_values :: "'v physics \<Rightarrow> 'v store \<Rightarrow> (size_t \<rightharpoonup> 'v)" where
  "parameter_values p s = (\<lambda>i. map_option s (parameters p i))"

text \<open>
  Modelled from the spec: registration of boundary conditions and material, and the
  one-shot \<^verbatim>\<open>completeSetup\<close>, which asserts that the essential data are present (a fatal
  configuration error otherwise) and moves the module to \<open>Configured\<close>.
\<close>

definition physics_registerEssentials :: "'v physics \<Rightarrow> 'v physics" where
  "physics_registerEssentials p = p\<lparr>essentials := True\<rparr>"

definition physics_completeSetup :: "'v physics \<Rightarrow> error + 'v physics" where
  "physics_completeSetup p =
     (if phase p \<noteq> Uninitialized then Inl InvalidState
      else if \<not> essentials p then Inl ConfigurationError
      else Inr (p\<lparr>phase := Configured\<rparr>))"

text \<open>
  Modelled from the spec: \<^verbatim>\<open>advanceTimestep\<close> runs the time integrator, appends a checkpoint,
  increments the cycle counter and returns the step size actually used. Once a forward
  step exists the module is implicitly \<open>AdjointReady\<close>, and further forward steps remain
  possible from there.
\<close>

definition physics_advanceTimestep ::
  "'v step \<Rightarrow> 'v physics \<Rightarrow> 'v store \<Rightarrow> double
     \<Rightarrow> error + ('v physics \<times> 'v store \<times> double)" where
  "physics_advanceTimestep step p s dt =
     (if phase p = Configured \<or> phase p = SteppingForward \<or> phase p = AdjointReady then
        (case step (parameter_values p s) s dt of
           Inl e \<Rightarrow> Inl e
         | Inr (s', dt_actual) \<Rightarrow>
             Inr (p\<lparr>phase := AdjointReady,
                    cycle := cycle p + 1,
                    checkpoints :=
                      \<lparr>ck_cycle = cycle p + 1, ck_dt = dt_actual,
                       ck_fields = map s' (primal p), ck_previous = map s (primal p)\<rparr>
                      # checkpoints p\<rparr>,
                  s', dt_actual))
      else Inl InvalidState)"

text \<open>
  Modelled from the spec: \<^verbatim>\<open>reverseAdjointTimestep\<close> consumes the most recent unconsumed
  checkpoint, solves the adjoint system of that step with the caller's loads and
  accumulates the sensitivities; it is illegal before any forward step and once the cycle
  counter has returned to 0, where the module is \<open>Complete\<close>.
\<close>

definition physics_reverseAdjointTimestep ::
  "'v adjoint_step \<Rightarrow> 'v physics \<Rightarrow> (string \<rightharpoonup> 'v) \<Rightarrow> error + 'v physics" where
  "physics_reverseAdjointTimestep adj p loads =
     (if phase p = AdjointReady \<or> phase p = SteppingBackward then
        (case checkpoints p of
           [] \<Rightarrow> Inl InvalidState
         | ck # rest \<Rightarrow>
             Inr (p\<lparr>phase := (if cycle p - 1 = 0 then Complete else SteppingBackward),
                    cycle := cycle p - 1,
                    checkpoints := rest,
                    duals := adj ck loads (duals p)\<rparr>))
      else Inl InvalidState)"

text \<open>
  Modelled from the spec: the sensitivity queries are valid only in \<open>SteppingBackward\<close> and
  \<open>Complete\<close>; they return the accumulated dual field and the module as it is after the
  call.
\<close>

definition computeSensitivity :: "'v physics \<Rightarrow> size_t \<Rightarrow> error + ('v \<times> 'v physics)" where
  "computeSensitivity p i =
     (if phase p = SteppingBackward \<or> phase p = Complete
      then Inr (parameter_sensitivity (duals p) i, p) else Inl InvalidState)"

definition computeInitialTemperatureSensitivity :: "'v physics \<Rightarrow> error + ('v \<times> 'v physics)" where
  "computeInitialTemperatureSensitivity p =
     (if phase p = SteppingBackward \<or> phase p = Complete
      then Inr (initial_sensitivity (duals p), p) else Inl InvalidState)"

definition computeTimestepShapeSensitivity :: "'v physics \<Rightarrow> error + ('v \<times> 'v physics)" where
  "computeTimestepShapeSensitivity p =
     (if phase p = SteppingBackward \<or> phase p = Complete
      then Inr (shape_sensitivity (duals p), p) else Inl InvalidState)"

text \<open>
  The solve of the heat transfer module updates the temperature, the solve of the solid
  mechanics module the displacement and the velocity; both are parameters.
\<close>

type_synonym 'v thermal_solve =
  "(size_t \<rightharpoonup> 'v) \<Rightarrow> 'v \<Rightarrow> double \<Rightarrow> error + ('v \<times> double)"

type_synonym 'v solid_solve =
  "(size_t \<rightharpoonup> 'v) \<Rightarrow> 'v \<times> 'v \<Rightarrow> double \<Rightarrow> error + (('v \<times> 'v) \<times> double)"

definition heat_step :: "'v thermal_solve \<Rightarrow> 'v step" where
  "heat_step solve P s dt =
     (case solve P (s ThermalTemperature) dt of
        Inl e \<Rightarrow> Inl e
      | Inr (T, dt_actual) \<Rightarrow> Inr (s(ThermalTemperature := T), dt_actual))"

definition solid_step :: "'v solid_solve \<Rightarrow> 'v step" where
  "solid_step solve P s dt =
     (case solve P (s SolidDisplacement, s SolidVelocity) dt of
        Inl e \<Rightarrow> Inl e
      | Inr ((u, v), dt_actual) \<Rightarrow>
          Inr (s(SolidDisplacement := u, SolidVelocity := v), dt_actual))"

section \<open>The drivers of the adjoint test\<close>

text \<open>
  The two loops of \<^verbatim>\<open>computeThermalQoiAndInitialTemperatureGradient\<close> in
  \<^verbatim>\<open>dynamic_thermal_adjoint.cpp\<close>: \<open>num_timesteps\<close> forward steps, each attempted with the
  step size \<open>totalTime / num_timesteps\<close>, then \<open>num_timesteps\<close> reverse steps. The adjoint
  load of a reverse step is computed from the module (the temperature at the end of the
  step and the step size); \<open>load\<close> stands for that computation.
\<close>

fun forward_steps ::
  "'v step \<Rightarrow> double \<Rightarrow> nat \<Rightarrow> 'v physics \<Rightarrow> 'v store \<Rightarrow> error + ('v physics \<times> 'v store)" where
  "forward_steps step dt 0 p s = Inr (p, s)"
| "forward_steps step dt (Suc n) p s =
     (case physics_advanceTimestep step p s dt of
        Inl e \<Rightarrow> Inl e
      | Inr (p', s', dt_actual) \<Rightarrow> forward_steps step dt n p' s')"

fun reverse_steps ::
  "'v adjoint_step \<Rightarrow> ('v physics \<Rightarrow> 'v) \<Rightarrow> nat \<Rightarrow> 'v physics \<Rightarrow> error + 'v physics" where
  "reverse_steps adj load 0 p = Inr p"
| "reverse_steps adj load (Suc n) p =
     (case physics_reverseAdjointTimestep adj p [''temperature'' \<mapsto> load p] of
        Inl e \<Rightarrow> Inl e
      | Inr p' \<Rightarrow> reverse_steps adj load n p')"

section \<open>The operator-split thermal-structural module\<close>

text \<open>
  Modelled from the spec: the enumeration \<^verbatim>\<open>serac::CouplingScheme\<close> is not part of the
  sources. The spec names operator split and, as an extension point, a monolithic
  strategy.
\<close>

datatype CouplingScheme = OperatorSplit | Monolithic

text \<open>
  The class \<^verbatim>\<open>Thermomechanics\<close> of \<^verbatim>\<open>thermomechanics.hpp\<close>. The members \<^verbatim>\<open>coupling_\<close>,
  \<^verbatim>\<open>cycle_\<close>, \<^verbatim>\<open>states_\<close>, \<^verbatim>\<open>thermal_\<close> and \<^verbatim>\<open>solid_\<close> lose the trailing underscore
  (\<^verbatim>\<open>cycle_\<close> becomes \<open>coupled_cycle\<close>, a 32-bit \<^verbatim>\<open>int\<close> on which \<^verbatim>\<open>cycle_ += 1\<close> wraps
  around at the largest value); \<open>field_values\<close> is the memory that holds the field
  objects the sub-modules own and refer to.
\<close>

record 'v thermomechanics =
  coupling :: CouplingScheme
  coupled_cycle :: c_int
  states :: "field_ref list"
  thermal :: "'v physics"
  solid :: "'v physics"
  field_values :: "'v store"

text \<open>
  The constructor: the body builds the module, after the check of the mesh dimension
  against the compile-time dimension. The base class starts the cycle counter at 0.
\<close>

definition construct :: "'v sensitivities \<Rightarrow> 'v store \<Rightarrow> 'v thermomechanics" where
  "construct z s =
     \<lparr>coupling = OperatorSplit,
      coupled_cycle = 0,
      states = [ThermalTemperature, SolidVelocity, SolidDisplacement],
      thermal = physics_setParameter 0 SolidDisplacement (new_physics [ThermalTemperature] z),
      solid = physics_setParameter 0 ThermalTemperature
                (new_physics [SolidDisplacement, SolidVelocity] z),
      field_values = s\<rparr>"

definition Thermomechanics ::
  "nat \<Rightarrow> nat \<Rightarrow> 'v sensitivities \<Rightarrow> 'v store \<Rightarrow> error + 'v thermomechanics" where
  "Thermomechanics mesh_dimension template_dim z s =
     (if mesh_dimension \<noteq> template_dim then Inl ConfigurationError else Inr (construct z s))"

definition completeSetup :: "'v thermomechanics \<Rightarrow> error + 'v thermomechanics" where
  "completeSetup m =
     (if coupling m \<noteq> OperatorSplit then Inl UnsupportedOperation
      else case physics_completeSetup (thermal m) of
             Inl e \<Rightarrow> Inl e
           | Inr th \<Rightarrow>
               (case physics_completeSetup (solid m) of
                  Inl e \<Rightarrow> Inl e
                | Inr so \<Rightarrow> Inr (m\<lparr>thermal := th, solid := so\<rparr>)))"

definition setParameter ::
  "field_ref \<Rightarrow> size_t \<Rightarrow> 'v thermomechanics \<Rightarrow> 'v thermomechanics" where
  "setParameter parameter_state i m =
     m\<lparr>thermal := physics_setParameter (i + 1) parameter_state (thermal m),
       solid := physics_setParameter (i + 1) parameter_state (solid m)\<rparr>"

text \<open>
  \<^verbatim>\<open>state\<close> returns a reference to the named field. For any other name it reaches
  \<^verbatim>\<open>SLIC_ERROR_ROOT\<close>, which is fatal; the \<^verbatim>\<open>return\<close> after it is not reached.
\<close>

definition state :: "'v thermomechanics \<Rightarrow> string \<Rightarrow> error + field_ref" where
  "state m state_name =
     (if state_name = ''displacement'' then Inr SolidDisplacement
      else if state_name = ''velocity'' then Inr SolidVelocity
      else if state_name = ''temperature'' then Inr ThermalTemperature
      else Inl UnknownStateName)"

definition stateNames :: "'v thermomechanics \<Rightarrow> string list" where
  "stateNames m = [''displacement'', ''velocity'', ''temperature'']"

text \<open>
  \<^verbatim>\<open>advanceTimestep\<close> takes \<open>dt\<close> by reference: each sub-module may change it, and the
  caller reads it back. The model returns the module and the final \<open>dt\<close>. The check
  \<^verbatim>\<open>std::abs(dt - initial_dt) > 1.0e-6\<close> is evaluated in double precision.
\<close>

definition advanceTimestep ::
  "'v thermal_solve \<Rightarrow> 'v solid_solve \<Rightarrow> 'v thermomechanics \<Rightarrow> double
     \<Rightarrow> error + ('v thermomechanics \<times> double)" where
  "advanceTimestep thermal_solve solid_solve m dt =
     (if coupling m = OperatorSplit then
        (let initial_dt = dt in
         case physics_advanceTimestep (heat_step thermal_solve) (thermal m) (field_values m) dt of
           Inl e \<Rightarrow> Inl e
         | Inr (th, s1, dt1) \<Rightarrow>
             (case physics_advanceTimestep (solid_step solid_solve) (solid m) s1 dt1 of
                Inl e \<Rightarrow> Inl e
              | Inr (so, s2, dt2) \<Rightarrow>
                  if double_greater (double_abs (double_sub dt2 initial_dt)) tolerance
                  then Inl InconsistentTimestep
                  else Inr (m\<lparr>thermal := th, solid := so, field_values := s2,
                              coupled_cycle := coupled_cycle m + 1\<rparr>, dt2)))
      else Inl UnsupportedOperation)"

text \<open>
  A driver loop as in the examples: \<open>n\<close> calls of \<^verbatim>\<open>advanceTimestep(dt)\<close> on one variable
  \<open>dt\<close>.
\<close>

fun advance_steps ::
  "'v thermal_solve \<Rightarrow> 'v solid_solve \<Rightarrow> nat \<Rightarrow> 'v thermomechanics \<Rightarrow> double
     \<Rightarrow> error + ('v thermomechanics \<times> double)" where
  "advance_steps thermal_solve solid_solve 0 m dt = Inr (m, dt)"
| "advance_steps thermal_solve solid_solve (Suc n) m dt =
     (case advanceTimestep thermal_solve solid_solve m dt of
        Inl e \<Rightarrow> Inl e
      | Inr (m', dt') \<Rightarrow> advance_steps thermal_solve solid_solve n m' dt')"

section \<open>Concrete modules and solves\<close>

text \<open>
  Instances on which the definitions are evaluated: integer field values, every field
  initially 10, and solves that make the data flow visible. \<open>incrementing_thermal_solve\<close>
  raises the temperature by one; \<open>recording_solid_solve\<close> stores the value it sees in its
  parameter 0 as the new displacement; both keep the step size. The other two leave the
  fields alone and return a given step size.
\<close>

definition zero_duals :: "int sensitivities" where
  "zero_duals =
     \<lparr>adjoint_multiplier = 0, initial_sensitivity = 0, shape_sensitivity = 0,
      parameter_sensitivity = (\<lambda>i. 0)\<rparr>"

definition uniform_store :: "int store" where
  "uniform_store = (\<lambda>r. 10)"

definition configured_coupled :: "int thermomechanics" where
  "configured_coupled =
     (construct zero_duals uniform_store)
       \<lparr>thermal := (thermal (construct zero_duals uniform_store))
                     \<lparr>essentials := True, phase := Configured\<rparr>,
        solid := (solid (construct zero_duals uniform_store))
                   \<lparr>essentials := True, phase := Configured\<rparr>\<rparr>"

definition configured_heat :: "int physics" where
  "configured_heat =
     (new_physics [ThermalTemperature] zero_duals)\<lparr>essentials := True, phase := Configured\<rparr>"

definition incrementing_thermal_solve :: "int thermal_solve" where
  "incrementing_thermal_solve P T dt = Inr (T + 1, dt)"

definition recording_solid_solve :: "int solid_solve" where
  "recording_solid_solve P uv dt =
     Inr ((case P 0 of Some t \<Rightarrow> t | None \<Rightarrow> fst uv, snd uv), dt)"

definition thermal_solve_returning :: "double \<Rightarrow> int thermal_solve" where
  "thermal_solve_returning d P T dt = Inr (T, d)"

definition solid_solve_returning :: "double \<Rightarrow> int solid_solve" where
  "solid_solve_returning d P uv dt = Inr (uv, d)"

definition summing_adjoint :: "int adjoint_step" where
  "summing_adjoint ck loads d =
     d\<lparr>initial_sensitivity :=
         initial_sensitivity d + (case loads ''temperature'' of Some l \<Rightarrow> l | None \<Rightarrow> 0)\<rparr>"

definition cycle_load :: "int physics \<Rightarrow> int" where
  "cycle_load p = cycle p"

text \<open>
  A module after one step that leaves the fields as they are in the uniform store and
  uses the step size \<open>d\<close>.
\<close>

definition checkpointed :: "int physics \<Rightarrow> double \<Rightarrow> int physics" where
  "checkpointed p d =
     p\<lparr>phase := AdjointReady, cycle := cycle p + 1,
       checkpoints :=
         \<lparr>ck_cycle = cycle p + 1, ck_dt = d, ck_fields = map uniform_store (primal p),
          ck_previous = map uniform_store (primal p)\<rparr> # checkpoints p\<rparr>"

text \<open>The configured modules after one step of the incrementing and recording solves.\<close>

definition stepped_thermal :: "int physics" where
  "stepped_thermal =
     (thermal configured_coupled)
       \<lparr>phase := AdjointReady, cycle := 1,
        checkpoints :=
          [\<lparr>ck_cycle = 1, ck_dt = Finite 1, ck_fields = [11], ck_previous = [10]\<rparr>]\<rparr>"

definition stepped_solid :: "int physics" where
  "stepped_solid =
     (solid configured_coupled)
       \<lparr>phase := AdjointReady, cycle := 1,
        checkpoints :=
          [\<lparr>ck_cycle = 1, ck_dt = Finite 1, ck_fields = [11, 10],
            ck_previous = [10, 10]\<rparr>]\<rparr>"

definition stepped_coupled :: "int thermomechanics" where
  "stepped_coupled =
     configured_coupled
       \<lparr>thermal := stepped_thermal, solid := stepped_solid,
        field_values := uniform_store(ThermalTemperature := 11, SolidDisplacement := 11),
        coupled_cycle := 1\<rparr>"

text \<open>
  The configured heat transfer module after two forward steps of size \<open>1 / 8\<close>, and after
  the two reverse steps that follow, with an adjoint step that sums the loads.
\<close>

definition heat_after_two :: "int physics" where
  "heat_after_two =
     configured_heat
       \<lparr>phase := AdjointReady, cycle := 2,
        checkpoints :=
          [\<lparr>ck_cycle = 2, ck_dt = Finite (1 / 8), ck_fields = [12], ck_previous = [11]\<rparr>,
           \<lparr>ck_cycle = 1, ck_dt = Finite (1 / 8), ck_fields = [11], ck_previous = [10]\<rparr>]\<rparr>"

definition heat_reversed :: "int physics" where
  "heat_reversed =
     configured_heat
       \<lparr>phase := Complete, cycle := 0, checkpoints := [],
        duals := zero_duals\<lparr>initial_sensitivity := 3\<rparr>\<rparr>"

text \<open>
  The cycle counter counts the unconsumed checkpoints, and these carry the cycle indices
  in descending order, the most recent first.
\<close>

definition counted :: "'v physics \<Rightarrow> bool" where
  "counted p \<longleftrightarrow>
     cycle p = int (length (checkpoints p)) \<and>
     map ck_cycle (checkpoints p) = rev (map int [1..<Suc (length (checkpoints p))])"

section \<open>Quadrature point counts: proofs\<close>

lemma abs_mult_le:
  fixes a b :: int
  assumes "\<bar>a\<bar> \<le> A" and "\<bar>b\<bar> \<le> B"
  shows "\<bar>a * b\<bar> \<le> A * B"
proof -
  have "\<bar>a * b\<bar> = \<bar>a\<bar> * \<bar>b\<bar>" by (simp add: abs_mult)
  also have "\<dots> \<le> A * B" using assms by (intro mult_mono) auto
  finally show ?thesis .
qed

lemma sint_of_small:
  "\<bar>k\<bar> < 2 ^ 31 \<Longrightarrow> sint (word_of_int k :: c_int) = k"
  by (simp add: sint_sbintrunc' signed_take_bit_int_eq_self)

lemma sint_mult_small:
  fixes a b :: c_int
  assumes "\<bar>sint a * sint b\<bar> < 2 ^ 31"
  shows "sint (a * b) = sint a * sint b"
  using assms by (simp add: sint_word_mult signed_take_bit_int_eq_self)

lemma sint_add_small:
  fixes a b :: c_int
  assumes "\<bar>sint a + sint b\<bar> < 2 ^ 31"
  shows "sint (a + b) = sint a + sint b"
  using assms by (simp add: sint_word_add signed_take_bit_int_eq_self)

lemma sint_int_div_exact:
  fixes a b :: c_int
  assumes "sint b dvd sint a" and "0 < sint b" and "\<bar>sint a\<bar> < 2 ^ 31"
  shows "sint (int_div a b) = sint a div sint b"
proof -
  have e: "sint a sdiv sint b = sint a div sint b"
    using assms by (simp add: signed_divide_int_eq_divide_int)
  from assms(1) obtain c where c: "sint a = sint b * c" ..
  have "\<bar>c\<bar> * 1 \<le> \<bar>c\<bar> * sint b"
    using assms(2) by (intro mult_left_mono) auto
  then have "\<bar>sint a div sint b\<bar> \<le> \<bar>sint a\<bar>"
    using assms(2) by (simp add: c abs_mult mult.commute)
  with assms(3) have "\<bar>sint a div sint b\<bar> < 2 ^ 31"
    by linarith
  then show ?thesis
    by (simp add: int_div_def e sint_of_small)
qed

lemma even_consecutive: "even (k * (k + 1))" for k :: int
  by simp

lemma six_dvd_three_consecutive: "6 dvd k * (k + 1) * (k + 2)" for k :: int
proof -
  have "2 dvd k * (k + 1) * (k + 2)" by simp
  moreover have "3 dvd k * (k + 1) * (k + 2)"
  proof -
    have "k mod 3 = 0 \<or> k mod 3 = 1 \<or> k mod 3 = 2" by presburger
    then have "3 dvd k \<or> 3 dvd (k + 1) \<or> 3 dvd (k + 2)" by presburger
    then show ?thesis by (auto intro: dvd_mult dvd_mult2)
  qed
  moreover have "coprime (2::int) 3" by simp
  ultimately have "2 * 3 dvd k * (k + 1) * (k + 2)"
    by (rule divides_mult)
  then show ?thesis by simp
qed

lemma triangle_value:
  fixes q :: c_int
  assumes "\<bar>sint q\<bar> \<le> 46340"
  shows "sint (num_quadrature_points TRIANGLE q) = sint q * (sint q + 1) div 2"
proof -
  have s1: "sint (q + 1) = sint q + 1"
    using assms sint_add_small [of q 1] by simp
  have "\<bar>sint q * (sint q + 1)\<bar> \<le> 46340 * 46341"
    using assms by (intro abs_mult_le) auto
  then have b: "\<bar>sint q * (sint q + 1)\<bar> < 2 ^ 31" by simp
  then have s2: "sint (q * (q + 1)) = sint q * (sint q + 1)"
    using sint_mult_small [of q "q + 1"] by (simp add: s1)
  have "sint (int_div (q * (q + 1)) 2) = sint (q * (q + 1)) div sint (2 :: c_int)"
    by (rule sint_int_div_exact) (use b in \<open>simp_all add: s2\<close>)
  then show ?thesis
    by (simp add: num_quadrature_points_def s2)
qed

lemma square_value:
  fixes q :: c_int
  assumes "\<bar>sint q\<bar> \<le> 46340"
  shows "sint (num_quadrature_points SQUARE q) = sint q * sint q"
proof -
  have "\<bar>sint q * sint q\<bar> \<le> 46340 * 46340"
    using assms by (intro abs_mult_le) auto
  then have "\<bar>sint q * sint q\<bar> < 2 ^ 31" by simp
  then show ?thesis
    by (simp add: num_quadrature_points_def sint_mult_small)
qed

lemma tetrahedron_value:
  fixes q :: c_int
  assumes "\<bar>sint q\<bar> \<le> 1289"
  shows "sint (num_quadrature_points TETRAHEDRON q) = sint q * (sint q + 1) * (sint q + 2) div 6"
proof -
  have s1: "sint (q + 1) = sint q + 1"
    using assms sint_add_small [of q 1] by simp
  have s2: "sint (q + 2) = sint q + 2"
    using assms sint_add_small [of q 2] by simp
  have b1: "\<bar>sint q * (sint q + 1)\<bar> \<le> 1289 * 1290"
    using assms by (intro abs_mult_le) auto
  then have s3: "sint (q * (q + 1)) = sint q * (sint q + 1)"
    using sint_mult_small [of q "q + 1"] by (simp add: s1)
  have "\<bar>(sint q * (sint q + 1)) * (sint q + 2)\<bar> \<le> (1289 * 1290) * 1291"
    using assms b1 by (intro abs_mult_le) auto
  then have b: "\<bar>sint q * (sint q + 1) * (sint q + 2)\<bar> < 2 ^ 31" by simp
  then have s4: "sint (q * (q + 1) * (q + 2)) = sint q * (sint q + 1) * (sint q + 2)"
    using sint_mult_small [of "q * (q + 1)" "q + 2"] by (simp add: s2 s3)
  have "sint (int_div (q * (q + 1) * (q + 2)) 6) = sint (q * (q + 1) * (q + 2)) div sint (6 :: c_int)"
    by (rule sint_int_div_exact) (use b six_dvd_three_consecutive [of "sint q"] in \<open>simp_all add: s4\<close>)
  then show ?thesis
    by (simp add: num_quadrature_points_def s4)
qed

lemma cube_value:
  fixes q :: c_int
  assumes "\<bar>sint q\<bar> \<le> 1290"
  shows "sint (num_quadrature_points CUBE q) = sint q * sint q * sint q"
proof -
  have b1: "\<bar>sint q * sint q\<bar> \<le> 1290 * 1290"
    using assms by (intro abs_mult_le) auto
  then have s1: "sint (q * q) = sint q * sint q"
    using sint_mult_small [of q q] by simp
  have "\<bar>(sint q * sint q) * sint q\<bar> \<le> (1290 * 1290) * 1290"
    using assms b1 by (intro abs_mult_le) auto
  then have "\<bar>sint q * sint q * sint q\<bar> < 2 ^ 31" by simp
  then have "sint (q * q * q) = sint q * sint q * sint q"
    using sint_mult_small [of "q * q" q] by (simp add: s1)
  then show ?thesis
    by (simp add: num_quadrature_points_def)
qed

lemma triangular_pos: "1 \<le> k \<Longrightarrow> 1 \<le> k * (k + 1) div 2" for k :: int
proof -
  assume "1 \<le> k"
  then have "1 * 2 \<le> k * (k + 1)" by (intro mult_mono) auto
  then show ?thesis by simp
qed

lemma tetrahedral_pos: "1 \<le> k \<Longrightarrow> 1 \<le> k * (k + 1) * (k + 2) div 6" for k :: int
proof -
  assume k: "1 \<le> k"
  then have "1 * 2 \<le> k * (k + 1)" by (intro mult_mono) auto
  with k have "(1 * 2) * 3 \<le> (k * (k + 1)) * (k + 2)" by (intro mult_mono) auto
  then show ?thesis by simp
qed

lemma product_pos: "1 \<le> a \<Longrightarrow> 1 \<le> b \<Longrightarrow> 1 \<le> a * b" for a b :: int
  using mult_mono [of 1 a 1 b] by simp

text \<open>
  Claim C9, as the code has it. \<open>num_quadrature_points\<close> returns \<open>q\<close> for a segment,
  \<open>q (q + 1) / 2\<close> for a triangle, \<open>q\<^sup>2\<close> for a square, \<open>q (q + 1) (q + 2) / 6\<close> for a
  tetrahedron and \<open>q\<^sup>3\<close> for a cube, as long as the products stay inside the 32-bit
  range (\<open>|q| \<le> 46340\<close> for triangle and square, \<open>|q| \<le> 1289\<close> for the tetrahedron,
  \<open>|q| \<le> 1290\<close> for the cube); it returns \<open>-1\<close> for every geometry that \<open>dimension_of\<close>
  does not support; and for a supported geometry and \<open>1 \<le> q\<close> inside that range the count
  is at least 1.
\<close>

theorem num_quadrature_points_values:
  fixes q :: c_int
  shows "num_quadrature_points SEGMENT q = q \<and>
    (\<bar>sint q\<bar> \<le> 46340 \<longrightarrow>
       sint (num_quadrature_points TRIANGLE q) = sint q * (sint q + 1) div 2) \<and>
    (\<bar>sint q\<bar> \<le> 46340 \<longrightarrow>
       sint (num_quadrature_points SQUARE q) = sint q * sint q) \<and>
    (\<bar>sint q\<bar> \<le> 1289 \<longrightarrow>
       sint (num_quadrature_points TETRAHEDRON q) = sint q * (sint q + 1) * (sint q + 2) div 6) \<and>
    (\<bar>sint q\<bar> \<le> 1290 \<longrightarrow>
       sint (num_quadrature_points CUBE q) = sint q * sint q * sint q) \<and>
    (dimension_of g' = - 1 \<longrightarrow> num_quadrature_points g' q = - 1) \<and>
    (dimension_of g \<noteq> - 1 \<and> 1 \<le> sint q \<and>
     sint q \<le> (if g = SEGMENT then 2147483647 else if g = TRIANGLE \<or> g = SQUARE then 46340
               else if g = TETRAHEDRON then 1289 else 1290) \<longrightarrow>
       1 \<le> sint (num_quadrature_points g q))"
proof (intro conjI impI)
  show "num_quadrature_points SEGMENT q = q"
    by (simp add: num_quadrature_points_def)
next
  assume "dimension_of g' = - 1"
  then show "num_quadrature_points g' q = - 1"
    by (cases g') (simp_all add: dimension_of_def num_quadrature_points_def)
next
  assume a: "dimension_of g \<noteq> - 1 \<and> 1 \<le> sint q \<and>
     sint q \<le> (if g = SEGMENT then 2147483647 else if g = TRIANGLE \<or> g = SQUARE then 46340
               else if g = TETRAHEDRON then 1289 else 1290)"
  then have k: "1 \<le> sint q" by simp
  have seg: "num_quadrature_points SEGMENT q = q"
    by (simp add: num_quadrature_points_def)
  show "1 \<le> sint (num_quadrature_points g q)"
  proof (cases g)
    case SEGMENT
    with k seg show ?thesis by simp
  next
    case TRIANGLE
    with a have "\<bar>sint q\<bar> \<le> 46340" by simp
    with k TRIANGLE show ?thesis by (simp add: triangle_value triangular_pos)
  next
    case SQUARE
    with a have "\<bar>sint q\<bar> \<le> 46340" by simp
    with k SQUARE show ?thesis by (simp add: square_value product_pos)
  next
    case TETRAHEDRON
    with a have "\<bar>sint q\<bar> \<le> 1289" by simp
    with k TETRAHEDRON show ?thesis by (simp add: tetrahedron_value tetrahedral_pos)
  next
    case CUBE
    with a have "\<bar>sint q\<bar> \<le> 1290" by simp
    with k CUBE show ?thesis by (simp add: cube_value product_pos)
  qed (use a in \<open>simp_all add: dimension_of_def\<close>)
qed (simp_all add: triangle_value square_value tetrahedron_value cube_value)

text \<open>The counts for \<open>q = 3\<close>, and a prism as an unsupported geometry.\<close>

theorem num_quadrature_points_values_witness:
  "num_quadrature_points SEGMENT 3 = 3 \<and>
   sint (num_quadrature_points TRIANGLE 3) = 6 \<and>
   sint (num_quadrature_points SQUARE 3) = 9 \<and>
   sint (num_quadrature_points TETRAHEDRON 3) = 10 \<and>
   sint (num_quadrature_points CUBE 3) = 27 \<and>
   dimension_of PRISM = - 1 \<and> num_quadrature_points PRISM 3 = - 1 \<and>
   dimension_of TETRAHEDRON \<noteq> - 1 \<and> 1 \<le> sint (num_quadrature_points TETRAHEDRON 3)"
  using num_quadrature_points_values [of 3 PRISM TETRAHEDRON]
  by (simp add: dimension_of_def)

text \<open>
  The claim as stated, for every \<open>q\<close>, fails where the product leaves the 32-bit range:
  for the square and \<open>q = 65536\<close> the product \<open>q * q\<close> wraps to 0, which is neither
  \<open>q\<^sup>2\<close> nor at least 1.
\<close>

theorem num_quadrature_points_overflow:
  "dimension_of SQUARE \<noteq> - 1 \<and> 1 \<le> sint (65536 :: c_int) \<and>
   \<not> 1 \<le> sint (num_quadrature_points SQUARE 65536) \<and>
   sint (num_quadrature_points SQUARE 65536) \<noteq> sint (65536 :: c_int) * sint (65536 :: c_int)"
  by (simp add: num_quadrature_points_def dimension_of_def)

section \<open>State lookup by name\<close>

text \<open>
  Claim C8. \<open>stateNames\<close> returns exactly the three names displacement, velocity and
  temperature; \<open>state\<close> returns for each of them the corresponding field of the sub-module
  (the solid's displacement, the solid's velocity, the thermal temperature), which the
  constructed module's sub-modules own; for any other name it is a fatal error.
\<close>

theorem state_lookup:
  "stateNames m = [''displacement'', ''velocity'', ''temperature''] \<and>
   state m ''displacement'' = Inr SolidDisplacement \<and>
   state m ''velocity'' = Inr SolidVelocity \<and>
   state m ''temperature'' = Inr ThermalTemperature \<and>
   (name \<notin> set (stateNames m) \<longrightarrow> state m name = Inl UnknownStateName) \<and>
   (Thermomechanics mesh_dimension template_dim z s = Inr c \<longrightarrow>
      primal (solid c) = [SolidDisplacement, SolidVelocity] \<and>
      primal (thermal c) = [ThermalTemperature])"
  by (auto simp: stateNames_def state_def Thermomechanics_def construct_def
      physics_setParameter_def new_physics_def split: if_splits)

text \<open>The lookup at the unknown name \<open>pressure\<close> and on the constructed module.\<close>

theorem state_lookup_witness:
  "''pressure'' \<notin> set (stateNames configured_coupled) \<and>
   state configured_coupled ''pressure'' = Inl UnknownStateName \<and>
   Thermomechanics 3 3 zero_duals uniform_store = Inr (construct zero_duals uniform_store) \<and>
   primal (solid (construct zero_duals uniform_store)) = [SolidDisplacement, SolidVelocity] \<and>
   state configured_coupled ''displacement'' = Inr SolidDisplacement"
  using state_lookup [of configured_coupled "''pressure''" 3 3 zero_duals uniform_store
      "construct zero_duals uniform_store"]
  by (simp add: stateNames_def Thermomechanics_def)

section \<open>Parameter slots of the coupled module\<close>

text \<open>
  Claim C10, as the code has it. The constructor puts the solid displacement into
  parameter slot 0 of the thermal sub-module and the thermal temperature into slot 0 of
  the solid sub-module. A call \<open>setParameter parameter_state i\<close> registers the field at
  index \<open>i + 1\<close> of both sub-modules and changes no other slot; for every index \<open>i\<close> other
  than the largest \<^verbatim>\<open>size_t\<close> value, slot 0 of both sub-modules keeps the coupling field.
\<close>

theorem parameter_slots:
  "(Thermomechanics mesh_dimension template_dim z s = Inr c \<longrightarrow>
      parameters (thermal c) 0 = Some SolidDisplacement \<and>
      parameters (solid c) 0 = Some ThermalTemperature) \<and>
   parameters (thermal (setParameter r i m)) (i + 1) = Some r \<and>
   parameters (solid (setParameter r i m)) (i + 1) = Some r \<and>
   (j \<noteq> i + 1 \<longrightarrow>
      parameters (thermal (setParameter r i m)) j = parameters (thermal m) j \<and>
      parameters (solid (setParameter r i m)) j = parameters (solid m) j) \<and>
   (i \<noteq> - 1 \<longrightarrow>
      parameters (thermal (setParameter r i m)) 0 = parameters (thermal m) 0 \<and>
      parameters (solid (setParameter r i m)) 0 = parameters (solid m) 0)"
proof -
  have "i + 1 \<noteq> 0" if "i \<noteq> - 1"
    using that by (metis add.commute add_eq_0_iff2 minus_equation_iff)
  then show ?thesis
    by (auto simp: Thermomechanics_def construct_def setParameter_def
        physics_setParameter_def new_physics_def split: if_splits)
qed

text \<open>The constructed module, and a user parameter registered at index 4.\<close>

theorem parameter_slots_witness:
  "Thermomechanics 3 3 zero_duals uniform_store = Inr (construct zero_duals uniform_store) \<and>
   parameters (thermal (construct zero_duals uniform_store)) 0 = Some SolidDisplacement \<and>
   parameters (solid (construct zero_duals uniform_store)) 0 = Some ThermalTemperature \<and>
   (0 :: size_t) \<noteq> 4 + 1 \<and> (4 :: size_t) \<noteq> - 1 \<and>
   parameters (thermal (setParameter (External 7) 4 (construct zero_duals uniform_store))) 5
     = Some (External 7) \<and>
   parameters (thermal (setParameter (External 7) 4 (construct zero_duals uniform_store))) 0
     = Some SolidDisplacement \<and>
   parameters (solid (setParameter (External 7) 4 (construct zero_duals uniform_store))) 0
     = Some ThermalTemperature"
  using parameter_slots [of 3 3 zero_duals uniform_store "construct zero_duals uniform_store"
      "External 7" 4 "construct zero_duals uniform_store" 0]
  by (simp add: Thermomechanics_def)

text \<open>
  The claim that a user index never collides with a coupling field fails at the largest
  \<^verbatim>\<open>size_t\<close> value: \<open>i + 1\<close> wraps to 0, and the user's field replaces the coupling field
  in slot 0 of both sub-modules.
\<close>

theorem parameter_slot_collision:
  "parameters (thermal (construct zero_duals uniform_store)) 0 = Some SolidDisplacement \<and>
   parameters (thermal (setParameter (External 7) (- 1) (construct zero_duals uniform_store))) 0
     = Some (External 7) \<and>
   parameters (solid (setParameter (External 7) (- 1) (construct zero_duals uniform_store))) 0
     = Some (External 7)"
  by (simp add: construct_def setParameter_def physics_setParameter_def new_physics_def)

section \<open>Coupling strategies other than operator split\<close>

text \<open>
  Claim C5. If the coupling strategy of the module is not operator split, \<open>completeSetup\<close>
  fails with \<open>UnsupportedOperation\<close>, and so does every attempt to step forward: there is
  no fall-back to operator split and no sub-module is advanced.
\<close>

theorem unsupported_coupling:
  "coupling m \<noteq> OperatorSplit \<Longrightarrow>
     completeSetup m = Inl UnsupportedOperation \<and>
     advanceTimestep thermal_solve solid_solve m dt = Inl UnsupportedOperation \<and>
     advance_steps thermal_solve solid_solve (Suc n) m dt = Inl UnsupportedOperation"
  by (simp add: completeSetup_def advanceTimestep_def)

text \<open>The configured module with its strategy set to monolithic.\<close>

theorem unsupported_coupling_witness:
  "coupling (configured_coupled\<lparr>coupling := Monolithic\<rparr>) \<noteq> OperatorSplit \<and>
   completeSetup (configured_coupled\<lparr>coupling := Monolithic\<rparr>) = Inl UnsupportedOperation \<and>
   advanceTimestep incrementing_thermal_solve recording_solid_solve
     (configured_coupled\<lparr>coupling := Monolithic\<rparr>) (Finite 1) = Inl UnsupportedOperation"
  using unsupported_coupling [of "configured_coupled\<lparr>coupling := Monolithic\<rparr>"
      incrementing_thermal_solve recording_solid_solve "Finite 1" 0]
  by simp

section \<open>The tolerance check in double precision\<close>

lemmas rounding_defs =
  round_to_double_def rounded_magnitude_def quantum_def binade_def round_half_even_def
  compute_bitlen

lemma tolerance_value: "tolerance = Finite (4722366482869645 / 2 ^ 72)"
  by (simp add: tolerance_def rounding_defs)

lemma two_powi_nonneg: "0 \<le> k \<Longrightarrow> (2::real) powi k = 2 ^ nat k"
  by (simp add: power_int_def)

lemma two_powi_neg: "0 \<le> k \<Longrightarrow> (2::real) powi (- k) = 1 / 2 ^ nat k"
  by (simp add: power_int_minus_divide two_powi_nonneg)

lemma binade_bounds:
  assumes "0 < a"
  shows "2 powi binade a \<le> a" and "a < 2 powi (binade a + 1)"
proof -
  show "2 powi binade a \<le> a"
  proof (cases "1 \<le> a")
    case True
    then have p: "0 < \<lfloor>a\<rfloor>" by linarith
    then have b: "1 \<le> bitlen \<lfloor>a\<rfloor>" by (simp add: bitlen_alt_def)
    from bitlen_bounds [OF p] have "2 ^ nat (bitlen \<lfloor>a\<rfloor> - 1) \<le> \<lfloor>a\<rfloor>" by simp
    then have "(2::real) ^ nat (bitlen \<lfloor>a\<rfloor> - 1) \<le> of_int \<lfloor>a\<rfloor>"
      by (metis of_int_le_iff of_int_numeral of_int_power)
    also have "\<dots> \<le> a" by simp
    finally have "(2::real) ^ nat (bitlen \<lfloor>a\<rfloor> - 1) \<le> a" .
    moreover have "(2::real) powi (bitlen \<lfloor>a\<rfloor> - 1) = 2 ^ nat (bitlen \<lfloor>a\<rfloor> - 1)"
      using b by (simp add: power_int_def)
    ultimately show ?thesis using True by (simp add: binade_def)
  next
    case False
    with assms have y: "1 < 1 / a" by simp
    then have p: "0 < \<lceil>1 / a\<rceil> - 1" by linarith
    let ?k = "bitlen (\<lceil>1 / a\<rceil> - 1)"
    from bitlen_bounds [OF p] have "\<lceil>1 / a\<rceil> - 1 < 2 ^ nat ?k" by simp
    then have "\<lceil>1 / a\<rceil> \<le> 2 ^ nat ?k" by simp
    then have "of_int \<lceil>1 / a\<rceil> \<le> (2::real) ^ nat ?k"
      by (metis of_int_le_iff of_int_numeral of_int_power)
    then have "1 / a \<le> 2 ^ nat ?k" by linarith
    then have "1 / 2 ^ nat ?k \<le> a"
      using assms by (simp add: field_simps)
    moreover have "(2::real) powi (- ?k) = 1 / 2 ^ nat ?k"
      using bitlen_nonneg [of "\<lceil>1 / a\<rceil> - 1"] by (rule two_powi_neg)
    ultimately show ?thesis using False by (simp add: binade_def)
  qed
  show "a < 2 powi (binade a + 1)"
  proof (cases "1 \<le> a")
    case True
    then have p: "0 < \<lfloor>a\<rfloor>" by linarith
    from bitlen_bounds [OF p] have "\<lfloor>a\<rfloor> + 1 \<le> 2 ^ nat (bitlen \<lfloor>a\<rfloor>)" by simp
    then have "of_int (\<lfloor>a\<rfloor> + 1) \<le> (2::real) ^ nat (bitlen \<lfloor>a\<rfloor>)"
      by (metis of_int_le_iff of_int_numeral of_int_power)
    moreover have "a < of_int (\<lfloor>a\<rfloor> + 1)" by linarith
    ultimately have "a < 2 ^ nat (bitlen \<lfloor>a\<rfloor>)" by linarith
    moreover have "(2::real) powi (bitlen \<lfloor>a\<rfloor>) = 2 ^ nat (bitlen \<lfloor>a\<rfloor>)"
      using bitlen_nonneg [of "\<lfloor>a\<rfloor>"] by (simp add: power_int_def)
    ultimately show ?thesis using True by (simp add: binade_def)
  next
    case False
    with assms have y: "1 < 1 / a" by simp
    then have p: "0 < \<lceil>1 / a\<rceil> - 1" by linarith
    let ?k = "bitlen (\<lceil>1 / a\<rceil> - 1)"
    from p have k: "1 \<le> ?k" by (simp add: bitlen_alt_def)
    from bitlen_bounds [OF p] have "2 ^ nat (?k - 1) \<le> \<lceil>1 / a\<rceil> - 1" by simp
    then have "(2::real) ^ nat (?k - 1) \<le> of_int (\<lceil>1 / a\<rceil> - 1)"
      by (metis of_int_le_iff of_int_numeral of_int_power)
    moreover have "of_int (\<lceil>1 / a\<rceil> - 1) < 1 / a" by linarith
    ultimately have "(2::real) ^ nat (?k - 1) < 1 / a" by linarith
    then have "a < 1 / 2 ^ nat (?k - 1)"
      using assms by (simp add: field_simps)
    moreover have "(2::real) powi (- ?k + 1) = 1 / 2 ^ nat (?k - 1)"
    proof -
      have "- ?k + 1 = - (?k - 1)" by simp
      then have "(2::real) powi (- ?k + 1) = 1 / 2 powi (?k - 1)"
        by (simp only: power_int_minus_divide)
      also have "\<dots> = 1 / 2 ^ nat (?k - 1)"
        using k by (simp add: power_int_def)
      finally show ?thesis .
    qed
    ultimately show ?thesis using False by (simp add: binade_def)
  qed
qed

lemma round_half_even_lower: "r - 1 / 2 \<le> of_int (round_half_even r)"
  unfolding round_half_even_def by (auto; linarith)

lemma round_half_even_upper: "of_int (round_half_even r) \<le> r + 1 / 2"
  unfolding round_half_even_def by (auto; linarith)

lemma round_half_even_greater_odd:
  assumes "odd k"
  shows "k < round_half_even r \<longleftrightarrow> of_int k + 1 / 2 \<le> r"
proof
  assume "k < round_half_even r"
  then have "of_int k + 1 \<le> (of_int (round_half_even r) :: real)"
    by (metis of_int_le_iff of_int_add of_int_1 zless_imp_add1_zle)
  with round_half_even_upper [of r] show "of_int k + 1 / 2 \<le> r" by linarith
next
  assume a: "of_int k + 1 / 2 \<le> r"
  show "k < round_half_even r"
  proof (cases "r < of_int k + 1")
    case True
    with a have f: "\<lfloor>r\<rfloor> = k" by linarith
    with a assms show ?thesis
      by (auto simp: round_half_even_def)
  next
    case False
    then have "(of_int k :: real) < of_int (round_half_even r)"
      using round_half_even_lower [of r] by linarith
    then show ?thesis by simp
  qed
qed

lemma quantum_pos: "0 < quantum a"
  by (simp add: quantum_def)

lemma rounded_magnitude_lower: "a - quantum a / 2 \<le> rounded_magnitude a"
proof -
  define q where "q = quantum a"
  have q: "0 < q" by (simp add: q_def quantum_pos)
  have "(a / q - 1 / 2) * q \<le> of_int (round_half_even (a / q)) * q"
    using round_half_even_lower [of "a / q"] q by (intro mult_right_mono) auto
  moreover have "(a / q - 1 / 2) * q = a - q / 2"
    using q by (simp add: field_simps)
  ultimately show ?thesis
    by (simp add: rounded_magnitude_def q_def)
qed

lemma rounded_magnitude_upper: "rounded_magnitude a \<le> a + quantum a / 2"
proof -
  define q where "q = quantum a"
  have q: "0 < q" by (simp add: q_def quantum_pos)
  have "of_int (round_half_even (a / q)) * q \<le> (a / q + 1 / 2) * q"
    using round_half_even_upper [of "a / q"] q by (intro mult_right_mono) auto
  moreover have "(a / q + 1 / 2) * q = a + q / 2"
    using q by (simp add: field_simps)
  ultimately show ?thesis
    by (simp add: rounded_magnitude_def q_def)
qed

lemma rounded_magnitude_nonneg:
  assumes "0 < a"
  shows "0 \<le> rounded_magnitude a"
proof -
  have "0 < a / quantum a" using assms quantum_pos [of a] by simp
  with round_half_even_lower [of "a / quantum a"]
  have "- 1 < (of_int (round_half_even (a / quantum a)) :: real)" by linarith
  then have "0 \<le> round_half_even (a / quantum a)" by linarith
  then show ?thesis
    using quantum_pos [of a] by (simp add: rounded_magnitude_def)
qed

lemma rounded_magnitude_exceeds_iff:
  assumes "0 < a"
  shows "4722366482869645 / 2 ^ 72 < rounded_magnitude a \<longleftrightarrow> 9444732965739291 / 2 ^ 73 \<le> a"
proof -
  consider "binade a \<le> - 21" | "binade a = - 20" | "- 19 \<le> binade a" by linarith
  then show ?thesis
  proof cases
    case 1
    then have "(2::real) powi (binade a + 1) \<le> 2 powi (- 20)"
      by (intro power_int_increasing) auto
    with binade_bounds(2) [OF assms] have small: "a < 1 / 2 ^ 20" by simp
    from 1 have "quantum a \<le> 2 powi (- 73)"
      unfolding quantum_def by (intro power_int_increasing) auto
    then have "quantum a \<le> 1 / 2 ^ 73" by simp
    with rounded_magnitude_upper [of a] small
    have "rounded_magnitude a < 1 / 2 ^ 20 + 1 / 2 ^ 74" by simp
    then have "\<not> 4722366482869645 / 2 ^ 72 < rounded_magnitude a" by simp
    moreover from small have "\<not> 9444732965739291 / 2 ^ 73 \<le> a" by simp
    ultimately show ?thesis by simp
  next
    case 2
    then have q: "quantum a = 1 / 2 ^ 72" by (simp add: quantum_def)
    have "4722366482869645 / 2 ^ 72 < rounded_magnitude a \<longleftrightarrow>
        (4722366482869645 :: int) < round_half_even (a * 2 ^ 72)"
    proof -
      have "4722366482869645 / 2 ^ 72 < rounded_magnitude a \<longleftrightarrow>
          4722366482869645 < (of_int (round_half_even (a * 2 ^ 72)) :: real)"
        by (simp add: rounded_magnitude_def q field_simps)
      also have "\<dots> \<longleftrightarrow> (of_int 4722366482869645 :: real) < of_int (round_half_even (a * 2 ^ 72))"
        by simp
      also have "\<dots> \<longleftrightarrow> (4722366482869645 :: int) < round_half_even (a * 2 ^ 72)"
        by (simp only: of_int_less_iff)
      finally show ?thesis .
    qed
    also have "\<dots> \<longleftrightarrow> of_int 4722366482869645 + 1 / 2 \<le> a * 2 ^ 72"
      by (rule round_half_even_greater_odd) simp
    also have "\<dots> \<longleftrightarrow> 9444732965739291 / 2 ^ 73 \<le> a"
      by (simp add: field_simps)
    finally show ?thesis .
  next
    case 3
    then have "(2::real) powi (- 19) \<le> 2 powi binade a"
      by (intro power_int_increasing) auto
    with binade_bounds(1) [OF assms] have big: "1 / 2 ^ 19 \<le> a" by simp
    from 3 have "quantum a = 2 powi (binade a - 52)" by (simp add: quantum_def)
    also have "\<dots> = 2 powi binade a * 2 powi (- 52)"
      by (simp add: power_int_diff power_int_minus_divide)
    also have "\<dots> \<le> a * 2 powi (- 52)"
      using binade_bounds(1) [OF assms] by (intro mult_right_mono) auto
    finally have "quantum a \<le> a / 2 ^ 52" by simp
    with rounded_magnitude_lower [of a] have "a - a / 2 ^ 53 \<le> rounded_magnitude a" by simp
    with big have "4722366482869645 / 2 ^ 72 < rounded_magnitude a" by simp
    moreover from big have "9444732965739291 / 2 ^ 73 \<le> a" by simp
    ultimately show ?thesis by simp
  qed
qed

lemma exceeds_tolerance_iff:
  "double_greater (double_abs (round_to_double x)) tolerance \<longleftrightarrow> 9444732965739291 / 2 ^ 73 \<le> \<bar>x\<bar>"
proof (cases "x = 0")
  case True
  then show ?thesis by (simp add: round_to_double_def tolerance_value)
next
  case False
  then have a: "0 < \<bar>x\<bar>" by simp
  show ?thesis
  proof (cases "2 powi 1024 \<le> rounded_magnitude \<bar>x\<bar>")
    case True
    then have "4722366482869645 / 2 ^ 72 < rounded_magnitude \<bar>x\<bar>" by simp
    with rounded_magnitude_exceeds_iff [OF a] have "9444732965739291 / 2 ^ 73 \<le> \<bar>x\<bar>" by simp
    with True False show ?thesis
      by (simp add: round_to_double_def tolerance_value)
  next
    case over: False
    have "\<bar>sgn x * rounded_magnitude \<bar>x\<bar>\<bar> = rounded_magnitude \<bar>x\<bar>"
      using False rounded_magnitude_nonneg [OF a] by (simp add: abs_mult)
    with over False rounded_magnitude_exceeds_iff [OF a] show ?thesis
      by (simp add: round_to_double_def tolerance_value)
  qed
qed

text \<open>
  The check of the coupled step on two finite doubles: the rounded difference exceeds the
  tolerance exactly when the exact difference reaches the midpoint between the tolerance
  and the next double above it (the tie goes to that double, whose significand is even).
\<close>

lemma finite_difference_exceeds_iff:
  "double_greater (double_abs (double_sub (Finite b) (Finite a))) tolerance \<longleftrightarrow>
     9444732965739291 / 2 ^ 73 \<le> \<bar>b - a\<bar>"
  by (simp add: exceeds_tolerance_iff)

lemma nan_difference_passes:
  "\<not> double_greater (double_abs (double_sub NaN y)) tolerance"
  "\<not> double_greater (double_abs (double_sub x NaN)) tolerance"
  by (cases x; simp)+

lemma equal_difference_passes:
  "\<not> double_greater (double_abs (double_sub d d)) tolerance"
  by (cases d) (simp_all add: exceeds_tolerance_iff)

section \<open>One operator-split step\<close>

lemmas concrete_defs =
  configured_coupled_def construct_def new_physics_def physics_setParameter_def
  zero_duals_def uniform_store_def parameter_values_def
  physics_advanceTimestep_def heat_step_def solid_step_def advanceTimestep_def

lemma physics_advanceTimestep_Inr:
  assumes "physics_advanceTimestep step p s dt = Inr (p', s', dt')"
  shows "step (parameter_values p s) s dt = Inr (s', dt')"
    and "cycle p' = cycle p + 1"
    and "checkpoints p' =
           \<lparr>ck_cycle = cycle p + 1, ck_dt = dt', ck_fields = map s' (primal p),
            ck_previous = map s (primal p)\<rparr> # checkpoints p"
    and "phase p' = AdjointReady"
    and "parameters p' = parameters p"
    and "primal p' = primal p"
    and "duals p' = duals p"
    and "phase p = Configured \<or> phase p = SteppingForward \<or> phase p = AdjointReady"
  using assms
  by (auto simp: physics_advanceTimestep_def split: if_splits sum.splits prod.splits)

lemma advanceTimestep_Inr:
  assumes "advanceTimestep ths sos m dt = Inr (m', dt')"
  obtains th s1 dt1 so s2 where
    "coupling m = OperatorSplit"
    "physics_advanceTimestep (heat_step ths) (thermal m) (field_values m) dt = Inr (th, s1, dt1)"
    "physics_advanceTimestep (solid_step sos) (solid m) s1 dt1 = Inr (so, s2, dt')"
    "\<not> double_greater (double_abs (double_sub dt' dt)) tolerance"
    "m' = m\<lparr>thermal := th, solid := so, field_values := s2, coupled_cycle := coupled_cycle m + 1\<rparr>"
  using assms
  by (auto simp: advanceTimestep_def Let_def split: if_splits sum.splits prod.splits)

lemma advanceTimestep_substeps:
  assumes "coupling m = OperatorSplit"
    and "physics_advanceTimestep (heat_step ths) (thermal m) (field_values m) dt = Inr (th, s1, dt1)"
    and "physics_advanceTimestep (solid_step sos) (solid m) s1 dt1 = Inr (so, s2, dt2)"
  shows "advanceTimestep ths sos m dt =
    (if double_greater (double_abs (double_sub dt2 dt)) tolerance then Inl InconsistentTimestep
     else Inr (m\<lparr>thermal := th, solid := so, field_values := s2,
                 coupled_cycle := coupled_cycle m + 1\<rparr>, dt2))"
  using assms by (simp add: advanceTimestep_def)

text \<open>
  Claim C2, as the code has it. The step size is compared once, after both sub-steps have
  run, with the step size on entry, in double precision. When both sub-steps succeed,
  \<open>advanceTimestep\<close> fails with \<open>InconsistentTimestep\<close> exactly when the double
  \<^verbatim>\<open>std::abs(dt - initial_dt)\<close> is greater than the double \<^verbatim>\<open>1.0e-6\<close>; otherwise the step
  succeeds, the cycle counter is incremented and the final step size is returned. For
  finite step sizes the check fails exactly when the exact difference is at least
  \<open>9444732965739291 / 2\<^sup>7\<^sup>3\<close>, the midpoint between the double \<^verbatim>\<open>1.0e-6\<close> and the next double;
  a step size that is not a number is never detected; and if the final step size is the
  one on entry, as when both sub-modules leave it unmodified, the coupled step succeeds
  and returns it unchanged.
\<close>

theorem timestep_check:
  assumes "coupling m = OperatorSplit"
    and "physics_advanceTimestep (heat_step ths) (thermal m) (field_values m) dt = Inr (th, s1, dt1)"
    and "physics_advanceTimestep (solid_step sos) (solid m) s1 dt1 = Inr (so, s2, dt2)"
  shows "(advanceTimestep ths sos m dt = Inl InconsistentTimestep \<longleftrightarrow>
       double_greater (double_abs (double_sub dt2 dt)) tolerance) \<and>
    (advanceTimestep ths sos m dt \<noteq> Inl InconsistentTimestep \<longrightarrow>
       advanceTimestep ths sos m dt =
         Inr (m\<lparr>thermal := th, solid := so, field_values := s2,
                coupled_cycle := coupled_cycle m + 1\<rparr>, dt2)) \<and>
    (dt = Finite a \<and> dt2 = Finite b \<longrightarrow>
       (advanceTimestep ths sos m dt = Inl InconsistentTimestep \<longleftrightarrow>
          9444732965739291 / 2 ^ 73 \<le> \<bar>b - a\<bar>)) \<and>
    (dt = NaN \<or> dt2 = NaN \<longrightarrow>
       advanceTimestep ths sos m dt \<noteq> Inl InconsistentTimestep) \<and>
    (dt2 = dt \<longrightarrow>
       advanceTimestep ths sos m dt =
         Inr (m\<lparr>thermal := th, solid := so, field_values := s2,
                coupled_cycle := coupled_cycle m + 1\<rparr>, dt))"
proof -
  note step = advanceTimestep_substeps [OF assms]
  show ?thesis
  proof (intro conjI impI)
    show "advanceTimestep ths sos m dt = Inl InconsistentTimestep \<longleftrightarrow>
        double_greater (double_abs (double_sub dt2 dt)) tolerance"
      by (simp add: step)
    show "advanceTimestep ths sos m dt =
        Inr (m\<lparr>thermal := th, solid := so, field_values := s2,
               coupled_cycle := coupled_cycle m + 1\<rparr>, dt2)"
      if "advanceTimestep ths sos m dt \<noteq> Inl InconsistentTimestep"
      using that by (simp add: step split: if_splits)
    show "advanceTimestep ths sos m dt = Inl InconsistentTimestep \<longleftrightarrow>
        9444732965739291 / 2 ^ 73 \<le> \<bar>b - a\<bar>"
      if "dt = Finite a \<and> dt2 = Finite b"
      using that step by (simp add: exceeds_tolerance_iff)
    show "advanceTimestep ths sos m dt \<noteq> Inl InconsistentTimestep"
      if "dt = NaN \<or> dt2 = NaN"
      using that step nan_difference_passes(1) [of dt] nan_difference_passes(2) [of dt2]
      by auto
    show "advanceTimestep ths sos m dt =
        Inr (m\<lparr>thermal := th, solid := so, field_values := s2,
               coupled_cycle := coupled_cycle m + 1\<rparr>, dt)"
      if "dt2 = dt"
      using that step equal_difference_passes [of dt] by simp
  qed
qed

text \<open>
  Claim C4, as the code has it. In one successful coupling step each sub-module is
  advanced exactly once, the thermal one first. The thermal solve reads in its parameter
  0 the displacement as the previous coupling step left it; the solid solve reads in its
  parameter 0 the temperature that the thermal solve of the same coupling step has just
  produced, and is attempted with the step size the thermal sub-step returned. The step
  leaves the two references in place, so the next coupling step does the same.
\<close>

theorem operator_split_data_flow:
  assumes "advanceTimestep ths sos m dt = Inr (m', dt')"
    and "parameters (thermal m) 0 = Some SolidDisplacement"
    and "parameters (solid m) 0 = Some ThermalTemperature"
  shows "\<exists>T dt1 u v.
    ths (parameter_values (thermal m) (field_values m)) (field_values m ThermalTemperature) dt
      = Inr (T, dt1) \<and>
    parameter_values (thermal m) (field_values m) 0 = Some (field_values m SolidDisplacement) \<and>
    sos (parameter_values (solid m) ((field_values m)(ThermalTemperature := T)))
        (field_values m SolidDisplacement, field_values m SolidVelocity) dt1
      = Inr ((u, v), dt') \<and>
    parameter_values (solid m) ((field_values m)(ThermalTemperature := T)) 0 = Some T \<and>
    field_values m' =
      (field_values m)(ThermalTemperature := T, SolidDisplacement := u, SolidVelocity := v) \<and>
    cycle (thermal m') = cycle (thermal m) + 1 \<and>
    cycle (solid m') = cycle (solid m) + 1 \<and>
    parameters (thermal m') 0 = Some SolidDisplacement \<and>
    parameters (solid m') 0 = Some ThermalTemperature"
proof -
  from assms(1) obtain th s1 dt1 so s2 where
    th: "physics_advanceTimestep (heat_step ths) (thermal m) (field_values m) dt = Inr (th, s1, dt1)"
    and so: "physics_advanceTimestep (solid_step sos) (solid m) s1 dt1 = Inr (so, s2, dt')"
    and m': "m' = m\<lparr>thermal := th, solid := so, field_values := s2,
                     coupled_cycle := coupled_cycle m + 1\<rparr>"
    by (rule advanceTimestep_Inr)
  from physics_advanceTimestep_Inr(1) [OF th]
  obtain T where T: "ths (parameter_values (thermal m) (field_values m))
        (field_values m ThermalTemperature) dt = Inr (T, dt1)"
    and s1: "s1 = (field_values m)(ThermalTemperature := T)"
    by (auto simp: heat_step_def split: sum.splits prod.splits)
  from physics_advanceTimestep_Inr(1) [OF so]
  obtain u v where uv: "sos (parameter_values (solid m) s1) (s1 SolidDisplacement, s1 SolidVelocity) dt1
        = Inr ((u, v), dt')"
    and s2: "s2 = s1(SolidDisplacement := u, SolidVelocity := v)"
    by (auto simp: solid_step_def split: sum.splits prod.splits)
  have p1: "parameter_values (thermal m) (field_values m) 0 = Some (field_values m SolidDisplacement)"
    using assms(2) by (simp add: parameter_values_def)
  have p2: "parameter_values (solid m) s1 0 = Some T"
    using assms(3) by (simp add: parameter_values_def s1)
  have c: "cycle th = cycle (thermal m) + 1" "cycle so = cycle (solid m) + 1"
    using physics_advanceTimestep_Inr(2) [OF th] physics_advanceTimestep_Inr(2) [OF so] by simp_all
  have w: "parameters th 0 = Some SolidDisplacement" "parameters so 0 = Some ThermalTemperature"
    using physics_advanceTimestep_Inr(5) [OF th] physics_advanceTimestep_Inr(5) [OF so] assms(2,3)
    by simp_all
  show ?thesis
    using T uv p1 p2 c w by (intro exI [of _ T] exI [of _ dt1] exI [of _ u] exI [of _ v])
      (simp add: m' s2 s1)
qed

lemma thermal_substep:
  "physics_advanceTimestep (heat_step incrementing_thermal_solve) (thermal configured_coupled)
     (field_values configured_coupled) (Finite 1) =
     Inr (stepped_thermal, uniform_store(ThermalTemperature := 11), Finite 1)"
  by (simp add: concrete_defs stepped_thermal_def incrementing_thermal_solve_def)

lemma solid_substep:
  "physics_advanceTimestep (solid_step recording_solid_solve) (solid configured_coupled)
     (uniform_store(ThermalTemperature := 11)) (Finite 1) =
     Inr (stepped_solid, uniform_store(ThermalTemperature := 11, SolidDisplacement := 11),
          Finite 1)"
  by (auto simp add: concrete_defs stepped_solid_def recording_solid_solve_def fun_eq_iff)

lemma configured_coupling: "coupling configured_coupled = OperatorSplit"
  by (simp add: configured_coupled_def construct_def)

lemma configured_cycle: "coupled_cycle configured_coupled = 0"
  by (simp add: configured_coupled_def construct_def)

lemma configured_step:
  "advanceTimestep incrementing_thermal_solve recording_solid_solve configured_coupled (Finite 1)
     = Inr (stepped_coupled, Finite 1)"
  unfolding advanceTimestep_substeps [OF configured_coupling thermal_substep solid_substep]
  using equal_difference_passes [of "Finite 1"]
  by (simp add: stepped_coupled_def configured_cycle)

lemma thermal_returning:
  "physics_advanceTimestep (heat_step (thermal_solve_returning d)) (thermal configured_coupled)
     (field_values configured_coupled) dt =
     Inr (checkpointed (thermal configured_coupled) d, uniform_store, d)"
  by (auto simp add: concrete_defs checkpointed_def thermal_solve_returning_def fun_eq_iff)

lemma solid_returning:
  "physics_advanceTimestep (solid_step (solid_solve_returning d)) (solid configured_coupled)
     uniform_store dt =
     Inr (checkpointed (solid configured_coupled) d, uniform_store, d)"
  by (auto simp add: concrete_defs checkpointed_def solid_solve_returning_def fun_eq_iff)

lemma returning_step:
  "advanceTimestep (thermal_solve_returning d1) (solid_solve_returning d2) configured_coupled dt =
     (if double_greater (double_abs (double_sub d2 dt)) tolerance then Inl InconsistentTimestep
      else Inr (configured_coupled
                 \<lparr>thermal := checkpointed (thermal configured_coupled) d1,
                  solid := checkpointed (solid configured_coupled) d2,
                  field_values := uniform_store,
                  coupled_cycle := coupled_cycle configured_coupled + 1\<rparr>, d2))"
  by (rule advanceTimestep_substeps [OF configured_coupling thermal_returning solid_returning])

text \<open>
  Four steps of the configured module: step size 1 kept by both sub-modules; step size
  \<open>5 / 2\<^sup>7\<^sup>5\<close> replaced by the double next above \<^verbatim>\<open>1.0e-6\<close>, where the rounded difference is
  the double \<^verbatim>\<open>1.0e-6\<close> itself and passes; step size 1 replaced by 2, which fails; and step
  size 1 replaced by not-a-number, which passes.
\<close>

theorem timestep_check_witness:
  "coupling configured_coupled = OperatorSplit \<and>
   physics_advanceTimestep (heat_step (thermal_solve_returning (Finite 1)))
     (thermal configured_coupled) (field_values configured_coupled) (Finite 1) =
     Inr (checkpointed (thermal configured_coupled) (Finite 1), uniform_store, Finite 1) \<and>
   physics_advanceTimestep (solid_step (solid_solve_returning (Finite 1)))
     (solid configured_coupled) uniform_store (Finite 1) =
     Inr (checkpointed (solid configured_coupled) (Finite 1), uniform_store, Finite 1) \<and>
   advanceTimestep (thermal_solve_returning (Finite 1)) (solid_solve_returning (Finite 1))
     configured_coupled (Finite 1) =
     Inr (configured_coupled
           \<lparr>thermal := checkpointed (thermal configured_coupled) (Finite 1),
            solid := checkpointed (solid configured_coupled) (Finite 1),
            field_values := uniform_store,
            coupled_cycle := coupled_cycle configured_coupled + 1\<rparr>, Finite 1) \<and>
   is_double (Finite (5 / 2 ^ 75)) \<and> is_double (Finite (4722366482869646 / 2 ^ 72)) \<and>
   \<not> 9444732965739291 / 2 ^ 73 \<le> \<bar>4722366482869646 / 2 ^ 72 - 5 / 2 ^ 75 :: real\<bar> \<and>
   advanceTimestep (thermal_solve_returning (Finite (4722366482869646 / 2 ^ 72)))
     (solid_solve_returning (Finite (4722366482869646 / 2 ^ 72)))
     configured_coupled (Finite (5 / 2 ^ 75)) \<noteq> Inl InconsistentTimestep \<and>
   9444732965739291 / 2 ^ 73 \<le> \<bar>2 - 1 :: real\<bar> \<and>
   advanceTimestep (thermal_solve_returning (Finite 2)) (solid_solve_returning (Finite 2))
     configured_coupled (Finite 1) = Inl InconsistentTimestep \<and>
   advanceTimestep (thermal_solve_returning (Finite 1)) (solid_solve_returning NaN)
     configured_coupled (Finite 1) \<noteq> Inl InconsistentTimestep"
proof -
  note w = timestep_check [OF configured_coupling thermal_returning solid_returning]
  have n1: "\<not> 9444732965739291 / 2 ^ 73 \<le> \<bar>4722366482869646 / 2 ^ 72 - 5 / 2 ^ 75 :: real\<bar>"
    by simp
  have n2: "9444732965739291 / 2 ^ 73 \<le> \<bar>2 - 1 :: real\<bar>"
    by simp
  have d: "is_double (Finite (5 / 2 ^ 75))" "is_double (Finite (4722366482869646 / 2 ^ 72))"
    by (simp_all add: is_double_def rounding_defs)
  have "advanceTimestep (thermal_solve_returning (Finite 1)) (solid_solve_returning (Finite 1))
     configured_coupled (Finite 1) =
     Inr (configured_coupled
           \<lparr>thermal := checkpointed (thermal configured_coupled) (Finite 1),
            solid := checkpointed (solid configured_coupled) (Finite 1),
            field_values := uniform_store,
            coupled_cycle := coupled_cycle configured_coupled + 1\<rparr>, Finite 1)"
    using w [of "Finite 1" "Finite 1" "Finite 1"] by blast
  moreover have "advanceTimestep (thermal_solve_returning (Finite (4722366482869646 / 2 ^ 72)))
     (solid_solve_returning (Finite (4722366482869646 / 2 ^ 72)))
     configured_coupled (Finite (5 / 2 ^ 75)) \<noteq> Inl InconsistentTimestep"
    using w [of "Finite (4722366482869646 / 2 ^ 72)" "Finite (4722366482869646 / 2 ^ 72)"
        "Finite (5 / 2 ^ 75)" "5 / 2 ^ 75" "4722366482869646 / 2 ^ 72"] n1
    by blast
  moreover have "advanceTimestep (thermal_solve_returning (Finite 2))
     (solid_solve_returning (Finite 2)) configured_coupled (Finite 1) = Inl InconsistentTimestep"
    using w [of "Finite 2" "Finite 2" "Finite 1" 1 2] n2 by blast
  moreover have "advanceTimestep (thermal_solve_returning (Finite 1)) (solid_solve_returning NaN)
     configured_coupled (Finite 1) \<noteq> Inl InconsistentTimestep"
    using w [of "Finite 1" NaN "Finite 1"] by blast
  moreover note configured_coupling thermal_returning [of "Finite 1" "Finite 1"]
    solid_returning [of "Finite 1" "Finite 1"] d n1 n2
  ultimately show ?thesis
    by (intro conjI)
qed

text \<open>
  The claim that an altered step size is detected after either sub-step fails. A thermal
  sub-step that changes the step size from 1 to 2, followed by a solid sub-step that
  changes it back, passes the check. A solid sub-step that changes the step size by
  \<open>2\<^sup>-\<^sup>2\<^sup>1\<close>, to \<open>2097153 / 2097152\<close>, passes as well, and the altered step size is returned
  to the caller; so does one that changes it to not-a-number. All step sizes involved are
  doubles.
\<close>

theorem timestep_change_undetected:
  "is_double (Finite 1) \<and> is_double (Finite 2) \<and> is_double (Finite (2097153 / 2097152)) \<and>
   map_sum id (snd \<circ> snd)
     (physics_advanceTimestep (heat_step (thermal_solve_returning (Finite 2)))
        (thermal configured_coupled) (field_values configured_coupled) (Finite 1))
     = Inr (Finite 2) \<and>
   map_sum id snd
     (advanceTimestep (thermal_solve_returning (Finite 2)) (solid_solve_returning (Finite 1))
        configured_coupled (Finite 1)) = Inr (Finite 1) \<and>
   map_sum id snd
     (advanceTimestep (thermal_solve_returning (Finite 1))
        (solid_solve_returning (Finite (2097153 / 2097152))) configured_coupled (Finite 1))
     = Inr (Finite (2097153 / 2097152)) \<and>
   map_sum id snd
     (advanceTimestep (thermal_solve_returning (Finite 1)) (solid_solve_returning NaN)
        configured_coupled (Finite 1)) = Inr NaN"
proof -
  have "is_double (Finite 1)" "is_double (Finite 2)" "is_double (Finite (2097153 / 2097152))"
    by (simp_all add: is_double_def rounding_defs)
  then show ?thesis
    by (simp add: thermal_returning returning_step exceeds_tolerance_iff)
qed

text \<open>One step of the configured module with the incrementing and recording solves.\<close>

theorem operator_split_data_flow_witness:
  "advanceTimestep incrementing_thermal_solve recording_solid_solve configured_coupled
     (Finite 1) = Inr (stepped_coupled, Finite 1) \<and>
   parameters (thermal configured_coupled) 0 = Some SolidDisplacement \<and>
   parameters (solid configured_coupled) 0 = Some ThermalTemperature \<and>
   field_values stepped_coupled ThermalTemperature = 11 \<and>
   field_values stepped_coupled SolidDisplacement = 11 \<and>
   cycle (thermal stepped_coupled) = cycle (thermal configured_coupled) + 1 \<and>
   cycle (solid stepped_coupled) = cycle (solid configured_coupled) + 1"
proof -
  have p: "parameters (thermal configured_coupled) 0 = Some SolidDisplacement"
    "parameters (solid configured_coupled) 0 = Some ThermalTemperature"
    by (simp_all add: configured_coupled_def construct_def physics_setParameter_def new_physics_def)
  from operator_split_data_flow [OF configured_step p]
  have "cycle (thermal stepped_coupled) = cycle (thermal configured_coupled) + 1 \<and>
    cycle (solid stepped_coupled) = cycle (solid configured_coupled) + 1"
    by blast
  with configured_step p show ?thesis
    by (simp add: stepped_coupled_def uniform_store_def)
qed

text \<open>
  The previous-step wording fails for the solid sub-module. From temperature 10 the
  thermal solve produces 11; the recording solid solve stores the value of its parameter 0
  as the displacement, which is 11 after the step. Given the previous-step temperature it
  would have stored 10.
\<close>

theorem solid_solve_sees_updated_temperature:
  "field_values configured_coupled ThermalTemperature = 10 \<and>
   advanceTimestep incrementing_thermal_solve recording_solid_solve configured_coupled
     (Finite 1) = Inr (stepped_coupled, Finite 1) \<and>
   field_values stepped_coupled SolidDisplacement = 11 \<and>
   recording_solid_solve
     (parameter_values (solid configured_coupled) (field_values configured_coupled))
     (field_values configured_coupled SolidDisplacement,
      field_values configured_coupled SolidVelocity) (Finite 1) = Inr ((10, 10), Finite 1)"
  using configured_step
  by (simp add: stepped_coupled_def configured_coupled_def construct_def uniform_store_def
      parameter_values_def physics_setParameter_def new_physics_def recording_solid_solve_def)

section \<open>Counting forward steps\<close>

lemma advance_steps_cycle:
  "advance_steps ths sos k m dt = Inr (mk, dtk) \<Longrightarrow> coupled_cycle mk = coupled_cycle m + of_nat k"
proof (induction k arbitrary: m dt)
  case 0
  then show ?case by simp
next
  case (Suc k)
  from Suc.prems obtain m1 dt1 where
    one: "advanceTimestep ths sos m dt = Inr (m1, dt1)"
    and rest: "advance_steps ths sos k m1 dt1 = Inr (mk, dtk)"
    by (auto split: sum.splits)
  from one have "coupled_cycle m1 = coupled_cycle m + 1"
    by (rule advanceTimestep_Inr) simp
  with Suc.IH [OF rest] show ?case by simp
qed

lemma sint_of_nat_small: "k < 2147483648 \<Longrightarrow> sint (of_nat k :: c_int) = int k"
proof -
  assume "k < 2147483648"
  then have "\<bar>int k\<bar> < 2 ^ 31" by simp
  then have "sint (word_of_int (int k) :: c_int) = int k" by (rule sint_of_small)
  then show ?thesis by simp
qed

text \<open>
  Claim C6, as the code has it. Every successful \<open>advanceTimestep\<close> of the coupled module
  appends one checkpoint to each of its sub-modules and adds one to the 32-bit cycle
  counter, which is an increment by exactly one as long as the counter is below the
  largest \<^verbatim>\<open>int\<close>; so after \<open>k < 2\<^sup>3\<^sup>1\<close> successful forward steps from a module whose counter
  is 0, the counter is \<open>k\<close>.
\<close>

theorem advanceTimestep_counts:
  "(advanceTimestep ths sos m dt = Inr (m', dt') \<longrightarrow>
      coupled_cycle m' = coupled_cycle m + 1 \<and>
      (sint (coupled_cycle m) < 2147483647 \<longrightarrow>
         sint (coupled_cycle m') = sint (coupled_cycle m) + 1) \<and>
      (\<exists>ck. checkpoints (thermal m') = ck # checkpoints (thermal m)) \<and>
      (\<exists>ck. checkpoints (solid m') = ck # checkpoints (solid m))) \<and>
   (coupled_cycle m0 = 0 \<and> advance_steps ths sos k m0 dt0 = Inr (mk, dtk) \<and> k < 2147483648 \<longrightarrow>
      sint (coupled_cycle mk) = int k)"
proof (intro conjI impI)
  assume a: "advanceTimestep ths sos m dt = Inr (m', dt')"
  then obtain th s1 dt1 so s2 where
    th: "physics_advanceTimestep (heat_step ths) (thermal m) (field_values m) dt = Inr (th, s1, dt1)"
    and so: "physics_advanceTimestep (solid_step sos) (solid m) s1 dt1 = Inr (so, s2, dt')"
    and m': "m' = m\<lparr>thermal := th, solid := so, field_values := s2,
                     coupled_cycle := coupled_cycle m + 1\<rparr>"
    by (rule advanceTimestep_Inr)
  show c: "coupled_cycle m' = coupled_cycle m + 1" by (simp add: m')
  show "sint (coupled_cycle m') = sint (coupled_cycle m) + 1"
    if "sint (coupled_cycle m) < 2147483647"
  proof -
    have "- (2 ^ 31) \<le> sint (coupled_cycle m)"
      using sint_ge [of "coupled_cycle m"] by simp
    with that have "\<bar>sint (coupled_cycle m) + sint (1 :: c_int)\<bar> < 2 ^ 31" by simp
    then show ?thesis
      using sint_add_small [of "coupled_cycle m" 1] by (simp add: c)
  qed
  show "\<exists>ck. checkpoints (thermal m') = ck # checkpoints (thermal m)"
    using physics_advanceTimestep_Inr(3) [OF th] by (simp add: m')
  show "\<exists>ck. checkpoints (solid m') = ck # checkpoints (solid m)"
    using physics_advanceTimestep_Inr(3) [OF so] by (simp add: m')
next
  assume "coupled_cycle m0 = 0 \<and> advance_steps ths sos k m0 dt0 = Inr (mk, dtk) \<and> k < 2147483648"
  then show "sint (coupled_cycle mk) = int k"
    using advance_steps_cycle [of ths sos k m0 dt0 mk dtk] by (simp add: sint_of_nat_small)
qed

text \<open>One step of the configured coupled module, from counter 0.\<close>

theorem advanceTimestep_counts_witness:
  "advanceTimestep incrementing_thermal_solve recording_solid_solve configured_coupled (Finite 1)
     = Inr (stepped_coupled, Finite 1) \<and>
   sint (coupled_cycle configured_coupled) < 2147483647 \<and>
   coupled_cycle stepped_coupled = coupled_cycle configured_coupled + 1 \<and>
   sint (coupled_cycle stepped_coupled) = sint (coupled_cycle configured_coupled) + 1 \<and>
   length (checkpoints (thermal stepped_coupled))
     = Suc (length (checkpoints (thermal configured_coupled))) \<and>
   coupled_cycle configured_coupled = 0 \<and>
   advance_steps incrementing_thermal_solve recording_solid_solve (Suc 0) configured_coupled
     (Finite 1) = Inr (stepped_coupled, Finite 1) \<and>
   Suc 0 < 2147483648 \<and>
   sint (coupled_cycle stepped_coupled) = int (Suc 0)"
proof -
  note z = configured_cycle
  have k: "advance_steps incrementing_thermal_solve recording_solid_solve (Suc 0)
      configured_coupled (Finite 1) = Inr (stepped_coupled, Finite 1)"
    using configured_step by simp
  have l: "length (checkpoints (thermal stepped_coupled))
     = Suc (length (checkpoints (thermal configured_coupled)))"
    by (simp add: stepped_coupled_def stepped_thermal_def configured_coupled_def construct_def
        physics_setParameter_def new_physics_def)
  show ?thesis
    using advanceTimestep_counts [where ths = incrementing_thermal_solve
        and sos = recording_solid_solve and m = configured_coupled and dt = "Finite 1"
        and m' = stepped_coupled and dt' = "Finite 1"
        and ?m0.0 = configured_coupled and k = "Suc 0" and ?dt0.0 = "Finite 1"
        and mk = stepped_coupled and dtk = "Finite 1"]
      configured_step z k l
    by simp
qed

text \<open>
  The claim for every call fails at the largest \<^verbatim>\<open>int\<close>: a successful step of a module
  whose counter is 2147483647 leaves the counter at -2147483648.
\<close>

theorem cycle_counter_wraps:
  "sint (coupled_cycle (configured_coupled\<lparr>coupled_cycle := 2147483647\<rparr>)) = 2147483647 \<and>
   advanceTimestep incrementing_thermal_solve recording_solid_solve
     (configured_coupled\<lparr>coupled_cycle := 2147483647\<rparr>) (Finite 1)
     = Inr (stepped_coupled\<lparr>coupled_cycle := - 2147483648\<rparr>, Finite 1) \<and>
   sint (coupled_cycle (stepped_coupled\<lparr>coupled_cycle := - 2147483648\<rparr>)) = - 2147483648"
proof -
  have c: "coupling (configured_coupled\<lparr>coupled_cycle := 2147483647\<rparr>) = OperatorSplit"
    by (simp add: configured_coupling)
  have t: "physics_advanceTimestep (heat_step incrementing_thermal_solve)
      (thermal (configured_coupled\<lparr>coupled_cycle := 2147483647\<rparr>))
      (field_values (configured_coupled\<lparr>coupled_cycle := 2147483647\<rparr>)) (Finite 1) =
      Inr (stepped_thermal, uniform_store(ThermalTemperature := 11), Finite 1)"
    using thermal_substep by simp
  have u: "physics_advanceTimestep (solid_step recording_solid_solve)
      (solid (configured_coupled\<lparr>coupled_cycle := 2147483647\<rparr>))
      (uniform_store(ThermalTemperature := 11)) (Finite 1) =
      Inr (stepped_solid, uniform_store(ThermalTemperature := 11, SolidDisplacement := 11),
           Finite 1)"
    using solid_substep by simp
  have "advanceTimestep incrementing_thermal_solve recording_solid_solve
     (configured_coupled\<lparr>coupled_cycle := 2147483647\<rparr>) (Finite 1)
     = Inr (stepped_coupled\<lparr>coupled_cycle := - 2147483648\<rparr>, Finite 1)"
    unfolding advanceTimestep_substeps [OF c t u]
    using equal_difference_passes [of "Finite 1"]
    by (simp add: stepped_coupled_def)
  then show ?thesis by simp
qed

section \<open>Forward and reverse stepping\<close>

lemma forward_steps_counted:
  assumes "forward_steps step dt n p s = Inr (p', s')" and "counted p"
  shows "counted p' \<and> cycle p' = cycle p + int n \<and>
         (0 < n \<longrightarrow> phase p' = AdjointReady) \<and> (n = 0 \<longrightarrow> p' = p)"
  using assms
proof (induction n arbitrary: p s)
  case 0
  then show ?case by simp
next
  case (Suc n)
  from Suc.prems(1) obtain p1 s1 dt1 where
    one: "physics_advanceTimestep step p s dt = Inr (p1, s1, dt1)"
    and rest: "forward_steps step dt n p1 s1 = Inr (p', s')"
    by (auto split: sum.splits)
  have c1: "counted p1" and y1: "cycle p1 = cycle p + 1" and ph1: "phase p1 = AdjointReady"
    using physics_advanceTimestep_Inr(2,3,4) [OF one] Suc.prems(2)
    by (simp_all add: counted_def)
  from Suc.IH [OF rest c1] y1 ph1 show ?case
    by (cases n) auto
qed

lemma reverse_steps_counted:
  assumes "counted p" and "cycle p = int n"
    and "phase p = AdjointReady \<or> phase p = SteppingBackward \<or> n = 0"
  shows "\<exists>p'. reverse_steps adj load n p = Inr p' \<and> cycle p' = 0 \<and> checkpoints p' = [] \<and>
           (0 < n \<longrightarrow> phase p' = Complete) \<and> (n = 0 \<longrightarrow> p' = p)"
  using assms
proof (induction n arbitrary: p)
  case 0
  then show ?case by (simp add: counted_def)
next
  case (Suc n)
  from Suc.prems(1,2) obtain ck rest where ck: "checkpoints p = ck # rest"
    by (cases "checkpoints p") (auto simp: counted_def)
  from Suc.prems(3) have ph: "phase p = AdjointReady \<or> phase p = SteppingBackward" by simp
  define p1 where "p1 = p\<lparr>phase := (if cycle p - 1 = 0 then Complete else SteppingBackward),
      cycle := cycle p - 1, checkpoints := rest,
      duals := adj ck [''temperature'' \<mapsto> load p] (duals p)\<rparr>"
  have one: "physics_reverseAdjointTimestep adj p [''temperature'' \<mapsto> load p] = Inr p1"
    using ph ck by (auto simp: physics_reverseAdjointTimestep_def p1_def)
  have c1: "counted p1" and y1: "cycle p1 = int n"
    using Suc.prems(1,2) ck by (simp_all add: counted_def p1_def)
  have ph1: "phase p1 = AdjointReady \<or> phase p1 = SteppingBackward \<or> n = 0"
    using Suc.prems(2) by (simp add: p1_def)
  have fin: "n = 0 \<Longrightarrow> phase p1 = Complete"
    using Suc.prems(2) by (simp add: p1_def)
  from Suc.IH [OF c1 y1 ph1] obtain p' where
    r: "reverse_steps adj load n p1 = Inr p'" "cycle p' = 0" "checkpoints p' = []"
      "0 < n \<longrightarrow> phase p' = Complete" "n = 0 \<longrightarrow> p' = p1"
    by blast
  have "phase p' = Complete" using r(4,5) fin by (cases n) auto
  with r one show ?case by simp
qed

lemma heat_forward:
  "forward_steps (heat_step incrementing_thermal_solve) (Finite (1 / 8)) (Suc (Suc 0))
     configured_heat
     uniform_store = Inr (heat_after_two, uniform_store(ThermalTemperature := 12))"
  by (simp add: physics_advanceTimestep_def heat_step_def incrementing_thermal_solve_def
      configured_heat_def new_physics_def heat_after_two_def uniform_store_def)

lemma heat_reverse:
  "reverse_steps summing_adjoint cycle_load (Suc (Suc 0)) heat_after_two = Inr heat_reversed"
  by (simp add: physics_reverseAdjointTimestep_def summing_adjoint_def cycle_load_def
      configured_heat_def new_physics_def heat_after_two_def heat_reversed_def zero_duals_def)

text \<open>
  Claim C3. From a freshly configured module, after \<open>n\<close> successful forward steps the
  cycle counter is \<open>n\<close> and the checkpoints of the cycles \<open>n, \<dots>, 1\<close> are held with the
  most recent first, the order in which the reverse steps consume them; the \<open>n\<close> reverse
  adjoint steps that follow all succeed and bring the cycle counter back to exactly 0,
  with every checkpoint consumed; and one more reverse adjoint step fails with
  \<open>InvalidState\<close>, whatever its loads.
\<close>

theorem checkpoint_symmetry:
  assumes "phase p0 = Configured" and "cycle p0 = 0" and "checkpoints p0 = []"
    and "forward_steps step dt n p0 s0 = Inr (p1, s1)"
  shows "cycle p1 = int n \<and>
    map ck_cycle (checkpoints p1) = rev (map int [1..<Suc n]) \<and>
    (\<exists>p2. reverse_steps adj load n p1 = Inr p2 \<and> cycle p2 = 0 \<and> checkpoints p2 = [] \<and>
       physics_reverseAdjointTimestep adj p2 loads = Inl InvalidState)"
proof -
  have c0: "counted p0" using assms(2,3) by (simp add: counted_def)
  from forward_steps_counted [OF assms(4) c0] assms(2)
  have c1: "counted p1" and y1: "cycle p1 = int n"
    and ph1: "0 < n \<longrightarrow> phase p1 = AdjointReady" and e1: "n = 0 \<longrightarrow> p1 = p0"
    by simp_all
  from c1 y1 have o1: "map ck_cycle (checkpoints p1) = rev (map int [1..<Suc n])"
    by (simp add: counted_def)
  have "phase p1 = AdjointReady \<or> phase p1 = SteppingBackward \<or> n = 0"
    using ph1 by auto
  from reverse_steps_counted [OF c1 y1 this, of adj load] obtain p2 where
    r: "reverse_steps adj load n p1 = Inr p2" "cycle p2 = 0" "checkpoints p2 = []"
      "0 < n \<longrightarrow> phase p2 = Complete" "n = 0 \<longrightarrow> p2 = p1"
    by blast
  have "phase p2 = Complete \<or> phase p2 = Configured"
    using r(4,5) e1 assms(1) by (cases n) auto
  then have "physics_reverseAdjointTimestep adj p2 loads = Inl InvalidState"
    using r(3) by (auto simp: physics_reverseAdjointTimestep_def)
  with r y1 o1 show ?thesis by blast
qed

text \<open>Two forward steps of size \<open>1 / 8\<close>, two reverse steps, and a third reverse step.\<close>

theorem checkpoint_symmetry_witness:
  "phase configured_heat = Configured \<and> cycle configured_heat = 0 \<and>
   checkpoints configured_heat = [] \<and>
   forward_steps (heat_step incrementing_thermal_solve) (Finite (1 / 8)) (Suc (Suc 0))
     configured_heat
     uniform_store = Inr (heat_after_two, uniform_store(ThermalTemperature := 12)) \<and>
   cycle heat_after_two = 2 \<and>
   reverse_steps summing_adjoint cycle_load (Suc (Suc 0)) heat_after_two = Inr heat_reversed \<and>
   cycle heat_reversed = 0 \<and>
   physics_reverseAdjointTimestep summing_adjoint heat_reversed [''temperature'' \<mapsto> 1]
     = Inl InvalidState"
proof -
  have h: "phase configured_heat = Configured" "cycle configured_heat = 0"
    "checkpoints configured_heat = []"
    by (simp_all add: configured_heat_def new_physics_def)
  from checkpoint_symmetry [OF h heat_forward, of summing_adjoint cycle_load
      "[''temperature'' \<mapsto> 1]"]
  obtain p2 where y: "cycle heat_after_two = int (Suc (Suc 0))"
    and r: "reverse_steps summing_adjoint cycle_load (Suc (Suc 0)) heat_after_two = Inr p2"
    and z: "cycle p2 = 0"
    and e: "physics_reverseAdjointTimestep summing_adjoint p2 [''temperature'' \<mapsto> 1]
      = Inl InvalidState"
    by blast
  from r have "p2 = heat_reversed"
    unfolding heat_reverse by simp
  with h heat_forward heat_reverse y z e show ?thesis
    by simp
qed

section \<open>Sensitivity queries\<close>

text \<open>
  Claim C7. In \<open>SteppingBackward\<close> and \<open>Complete\<close> each of the three sensitivity queries
  succeeds and leaves the module as it is, so a second call without an intervening step
  returns the same dual field as the first: the query reads the accumulated field and
  accumulates nothing.
\<close>

theorem sensitivity_queries_idempotent:
  assumes "phase p = SteppingBackward \<or> phase p = Complete"
  shows "(\<exists>d. computeSensitivity p i = Inr (d, p)) \<and>
    (\<exists>d. computeInitialTemperatureSensitivity p = Inr (d, p)) \<and>
    (\<exists>d. computeTimestepShapeSensitivity p = Inr (d, p)) \<and>
    (computeSensitivity p i = Inr (d1, p1) \<longrightarrow> computeSensitivity p1 i = Inr (d1, p1)) \<and>
    (computeInitialTemperatureSensitivity p = Inr (d2, p2) \<longrightarrow>
       computeInitialTemperatureSensitivity p2 = Inr (d2, p2)) \<and>
    (computeTimestepShapeSensitivity p = Inr (d3, p3) \<longrightarrow>
       computeTimestepShapeSensitivity p3 = Inr (d3, p3))"
  using assms
  by (auto simp: computeSensitivity_def computeInitialTemperatureSensitivity_def
      computeTimestepShapeSensitivity_def)

text \<open>The three queries on the module that has completed its adjoint pass.\<close>

theorem sensitivity_queries_idempotent_witness:
  "(phase heat_reversed = SteppingBackward \<or> phase heat_reversed = Complete) \<and>
   computeSensitivity heat_reversed 0 = Inr (0, heat_reversed) \<and>
   computeInitialTemperatureSensitivity heat_reversed = Inr (3, heat_reversed) \<and>
   computeTimestepShapeSensitivity heat_reversed = Inr (0, heat_reversed)"
proof -
  have ph: "phase heat_reversed = SteppingBackward \<or> phase heat_reversed = Complete"
    by (simp add: heat_reversed_def)
  have q: "computeSensitivity heat_reversed 0 = Inr (0, heat_reversed)"
    "computeInitialTemperatureSensitivity heat_reversed = Inr (3, heat_reversed)"
    "computeTimestepShapeSensitivity heat_reversed = Inr (0, heat_reversed)"
    by (simp_all add: computeSensitivity_def computeInitialTemperatureSensitivity_def
        computeTimestepShapeSensitivity_def heat_reversed_def zero_duals_def)
  from sensitivity_queries_idempotent [OF ph, of 0 0 heat_reversed 3 heat_reversed 0 heat_reversed]
  show ?thesis using ph q by simp
qed

end
